theory Spec2Isabelle
  imports Complex_Main
begin

chapter \<open>The model\<close>

section \<open>Session store (internal/session)\<close>

text \<open>
  A session message carries a role, a content and the time of the append.  The
  time is read from the wall clock in the source (\<open>time.Now()\<close>); here it is an
  argument of the append operation.
\<close>

record session_Message =
  Role :: string
  Content :: string
  Timestamp :: nat

record Session =
  Key :: string
  Messages :: "session_Message list"

text \<open>
  \<open>AddMessage\<close> appends one message and then keeps the last 50 entries
  (\<open>s.Messages[len(s.Messages)-50:]\<close>) when the list has grown beyond 50.
\<close>

definition AddMessage :: "Session \<Rightarrow> string \<Rightarrow> string \<Rightarrow> nat \<Rightarrow> Session" where
  "AddMessage s role content now =
     (let ms = Messages s @ [\<lparr>Role = role, Content = content, Timestamp = now\<rparr>]
      in if length ms > 50 then s\<lparr>Messages := drop (length ms - 50) ms\<rparr>
         else s\<lparr>Messages := ms\<rparr>)"

definition GetHistory :: "Session \<Rightarrow> session_Message list" where
  "GetHistory s = Messages s"

definition Clear :: "Session \<Rightarrow> Session" where
  "Clear s = s\<lparr>Messages := []\<rparr>"

text \<open>
  A run of appends, as the loop of \<open>TestMessageLimit\<close> performs it: each entry
  gives the role, the content and the clock reading of one call.
\<close>

definition turn_of :: "string \<times> string \<times> nat \<Rightarrow> session_Message" where
  "turn_of x = (case x of (r, c, t) \<Rightarrow> \<lparr>Role = r, Content = c, Timestamp = t\<rparr>)"

definition AddMessages :: "Session \<Rightarrow> (string \<times> string \<times> nat) list \<Rightarrow> Session" where
  "AddMessages s xs = foldl (\<lambda>s' x. case x of (r, c, t) \<Rightarrow> AddMessage s' r c t) s xs"

definition new_Session :: "string \<Rightarrow> Session" where
  "new_Session k = \<lparr>Key = k, Messages = []\<rparr>"

section \<open>Provider credentials (internal/config/schema.go)\<close>

record ProviderConfig =
  APIKey :: string
  APIBase :: string

record ProvidersConfig =
  OpenRouter :: ProviderConfig
  Anthropic :: ProviderConfig
  OpenAI :: ProviderConfig
  DeepSeek :: ProviderConfig
  Groq :: ProviderConfig
  Gemini :: ProviderConfig
  Moonshot :: ProviderConfig
  VLLM :: ProviderConfig

text \<open>
  Of the root configuration, \<open>GetAPIKey\<close> reads the default model
  (\<open>c.Agents.Defaults.Model\<close>) and the providers.
\<close>

record Config =
  Defaults_Model :: string
  Providers :: ProvidersConfig

text \<open>\<open>strings.HasPrefix\<close> and \<open>strings.Contains\<close> on byte strings.\<close>

definition HasPrefix :: "string \<Rightarrow> string \<Rightarrow> bool" where
  "HasPrefix s p = (take (length p) s = p)"

fun Contains :: "string \<Rightarrow> string \<Rightarrow> bool" where
  "Contains [] sub = (sub = [])"
| "Contains (c # s) sub = (HasPrefix (c # s) sub \<or> Contains s sub)"

text \<open>
  The ordered keyword table of \<open>GetAPIKey\<close> and its first loop: the first
  entry whose keyword occurs in the model name and whose key is not empty.
\<close>

definition keyword_providers :: "Config \<Rightarrow> (string \<times> ProviderConfig) list" where
  "keyword_providers c =
     [(''openrouter'', OpenRouter (Providers c)),
      (''deepseek'', DeepSeek (Providers c)),
      (''anthropic'', Anthropic (Providers c)),
      (''claude'', Anthropic (Providers c)),
      (''openai'', OpenAI (Providers c)),
      (''gpt'', OpenAI (Providers c)),
      (''gemini'', Gemini (Providers c)),
      (''groq'', Groq (Providers c)),
      (''moonshot'', Moonshot (Providers c)),
      (''kimi'', Moonshot (Providers c)),
      (''vllm'', VLLM (Providers c))]"

fun match_keyword :: "string \<Rightarrow> (string \<times> ProviderConfig) list \<Rightarrow> string option" where
  "match_keyword model [] = None"
| "match_keyword model ((keyword, provider) # ps) =
     (if Contains model keyword \<and> APIKey provider \<noteq> [] then Some (APIKey provider)
      else match_keyword model ps)"

text \<open>The fallback list and its loop: the first key that is not empty, else \<open>""\<close>.\<close>

definition fallback_providers :: "Config \<Rightarrow> ProviderConfig list" where
  "fallback_providers c =
     [OpenRouter (Providers c), DeepSeek (Providers c), Anthropic (Providers c),
      OpenAI (Providers c), Gemini (Providers c), Moonshot (Providers c),
      VLLM (Providers c), Groq (Providers c)]"

fun first_key :: "ProviderConfig list \<Rightarrow> string" where
  "first_key [] = []"
| "first_key (provider # ps) =
     (if APIKey provider \<noteq> [] then APIKey provider else first_key ps)"

text \<open>
  \<open>GetAPIKey\<close>.  An empty model name stands for the configured default model;
  the name is lower-cased with \<open>strings.ToLower\<close>, a function of the Go
  library that is an argument here (\<open>ToLower\<close>).
\<close>

definition GetAPIKey :: "(string \<Rightarrow> string) \<Rightarrow> Config \<Rightarrow> string \<Rightarrow> string" where
  "GetAPIKey ToLower c model =
     (let model1 = (if model = [] then Defaults_Model c else model);
          model2 = ToLower model1
      in case match_keyword model2 (keyword_providers c) of
           Some k \<Rightarrow> k
         | None \<Rightarrow> first_key (fallback_providers c))"

text \<open>The model name that the keyword search of \<open>GetAPIKey\<close> looks at.\<close>

definition effective_model :: "(string \<Rightarrow> string) \<Rightarrow> Config \<Rightarrow> string \<Rightarrow> string" where
  "effective_model ToLower c model = ToLower (if model = [] then Defaults_Model c else model)"

definition provider_keywords :: "string list" where
  "provider_keywords =
     [''openrouter'', ''deepseek'', ''anthropic'', ''claude'', ''openai'', ''gpt'',
      ''gemini'', ''groq'', ''moonshot'', ''kimi'', ''vllm'']"

text \<open>Lower-casing of ASCII letters, used for concrete runs.\<close>

definition lower_char :: "char \<Rightarrow> char" where
  "lower_char ch =
     (if (65::nat) \<le> of_char ch \<and> of_char ch \<le> (90::nat) then char_of (of_char ch + (32::nat))
      else ch)"

definition ascii_lower :: "string \<Rightarrow> string" where
  "ascii_lower s = map lower_char s"

definition key_only :: "string \<Rightarrow> ProviderConfig" where
  "key_only k = \<lparr>APIKey = k, APIBase = []\<rparr>"

definition example_config :: Config where
  "example_config =
     \<lparr>Defaults_Model = ''gpt-4'',
      Providers = \<lparr>OpenRouter = key_only ''or-key'', Anthropic = key_only [],
                   OpenAI = key_only ''oa-key'', DeepSeek = key_only [], Groq = key_only [],
                   Gemini = key_only [], Moonshot = key_only [], VLLM = key_only []\<rparr>\<rparr>"

section \<open>Streaming client (internal/providers/openai.go)\<close>

text \<open>
  One tool-call entry of a streamed chunk (\<open>chatToolCallDelta\<close>, with the
  nested \<open>Function\<close> struct flattened), and the first fields of a choice.
\<close>

record chatToolCallDelta =
  Index :: int
  ID :: string
  Type :: string
  Function_Name :: string
  Function_Arguments :: string

record chatChoice =
  Delta_Content :: string
  Delta_ToolCalls :: "chatToolCallDelta list"
  FinishReason :: string

text \<open>
  A scanned line of the response body, after the trimming and the JSON decoding
  that the loop of \<open>ChatStream\<close> applies to it:
  \<^item> \<open>NoData\<close>: a blank line or a line without the \<open>data:\<close> prefix;
  \<^item> \<open>DataEmpty\<close>: a \<open>data:\<close> line with an empty payload;
  \<^item> \<open>DataDone\<close>: the payload \<open>[DONE]\<close>;
  \<^item> \<open>DataInvalid e\<close>: a payload that \<open>json.Unmarshal\<close> rejects with error \<open>e\<close>;
  \<^item> \<open>DataChunk cs\<close>: a decoded chunk with its choices.
\<close>

datatype sse_line =
    NoData
  | DataEmpty
  | DataDone
  | DataInvalid string
  | DataChunk "chatChoice list"

text \<open>
  The response of \<open>doStreamRequest\<close>: a failed request, or the lines the
  scanner delivers followed by the read error that stops it, if any.
\<close>

datatype stream_source =
    RequestFailed string
  | Stream "sse_line list" "string option"

text \<open>The calls made on the \<open>StreamHandler\<close>, in the order they are made.\<close>

datatype StreamEvent =
    OnContent string
  | OnToolCallStart string string
  | OnToolCallDelta string string
  | OnToolCallEnd string
  | OnComplete
  | OnError string

record toolCallBuilder =
  bID :: string
  bName :: string
  bArguments :: string
  Started :: bool

text \<open>
  \<open>buildersByIndex\<close> is a Go map from the stream-local index to a builder.  It
  is kept as an association list in the order the indices first appear; the
  final loop over the map visits the builders in that order (Go leaves the
  order of a map iteration open).
\<close>

type_synonym builders = "(int \<times> toolCallBuilder) list"

definition new_builder :: toolCallBuilder where
  "new_builder = \<lparr>bID = [], bName = [], bArguments = [], Started = False\<rparr>"

fun put_builder :: "builders \<Rightarrow> int \<Rightarrow> toolCallBuilder \<Rightarrow> builders" where
  "put_builder [] idx b = [(idx, b)]"
| "put_builder ((i, b') # bs) idx b =
     (if i = idx then (idx, b) # bs else (i, b') # put_builder bs idx b)"

text \<open>The body of the loop over \<open>delta.ToolCalls\<close>.\<close>

definition tool_call_step :: "builders \<Rightarrow> chatToolCallDelta \<Rightarrow> builders \<times> StreamEvent list" where
  "tool_call_step bs tc =
     (let idx = Index tc;
          b0 = (case map_of bs idx of Some b \<Rightarrow> b | None \<Rightarrow> new_builder);
          b1 = (if ID tc \<noteq> [] then b0\<lparr>bID := ID tc\<rparr> else b0);
          b2 = (if Function_Name tc \<noteq> [] then b1\<lparr>bName := Function_Name tc\<rparr> else b1);
          starts = (\<not> Started b2 \<and> bID b2 \<noteq> [] \<and> bName b2 \<noteq> []);
          b3 = (if starts then b2\<lparr>Started := True\<rparr> else b2);
          ev1 = (if starts then [OnToolCallStart (bID b3) (bName b3)] else []);
          b4 = (if Function_Arguments tc \<noteq> []
                then b3\<lparr>bArguments := bArguments b3 @ Function_Arguments tc\<rparr> else b3);
          ev2 = (if Function_Arguments tc \<noteq> [] \<and> bID b4 \<noteq> []
                 then [OnToolCallDelta (bID b4) (Function_Arguments tc)] else [])
      in (put_builder bs idx b4, ev1 @ ev2))"

fun tool_calls_loop :: "builders \<Rightarrow> chatToolCallDelta list \<Rightarrow> builders \<times> StreamEvent list" where
  "tool_calls_loop bs [] = (bs, [])"
| "tool_calls_loop bs (tc # tcs) =
     (case tool_call_step bs tc of
        (bs1, evs1) \<Rightarrow> (case tool_calls_loop bs1 tcs of (bs2, evs2) \<Rightarrow> (bs2, evs1 @ evs2)))"

text \<open>A decoded chunk: only \<open>chunk.Choices[0]\<close> is read.\<close>

definition chunk_step :: "builders \<Rightarrow> chatChoice list \<Rightarrow> builders \<times> StreamEvent list" where
  "chunk_step bs choices =
     (case choices of
        [] \<Rightarrow> (bs, [])
      | choice # _ \<Rightarrow>
          (case tool_calls_loop bs (Delta_ToolCalls choice) of
             (bs1, evs) \<Rightarrow>
               (bs1, (if Delta_Content choice \<noteq> [] then [OnContent (Delta_Content choice)] else [])
                     @ evs)))"

text \<open>How the scanning loop ends.\<close>

datatype scan_end = SawDone | Exhausted | DecodeFailed string

fun scan_lines :: "builders \<Rightarrow> sse_line list \<Rightarrow> StreamEvent list \<times> scan_end \<times> builders" where
  "scan_lines bs [] = ([], Exhausted, bs)"
| "scan_lines bs (NoData # ls) = scan_lines bs ls"
| "scan_lines bs (DataEmpty # ls) = scan_lines bs ls"
| "scan_lines bs (DataDone # ls) = ([], SawDone, bs)"
| "scan_lines bs (DataInvalid e # ls) = ([], DecodeFailed e, bs)"
| "scan_lines bs (DataChunk cs # ls) =
     (case chunk_step bs cs of
        (bs1, evs1) \<Rightarrow> (case scan_lines bs1 ls of (evs2, fin, bs2) \<Rightarrow> (evs1 @ evs2, fin, bs2)))"

text \<open>The loop after the scan: one \<open>OnToolCallEnd\<close> per builder with arguments and an id.\<close>

fun end_events :: "builders \<Rightarrow> StreamEvent list" where
  "end_events [] = []"
| "end_events ((i, b) # bs) =
     (if bArguments b \<noteq> [] \<and> bID b \<noteq> [] then [OnToolCallEnd (bID b)] else []) @ end_events bs"

text \<open>
  \<open>ChatStream\<close>: the handler calls it makes and the error it returns
  (\<open>None\<close> for \<open>nil\<close>).
\<close>

definition ChatStream :: "stream_source \<Rightarrow> StreamEvent list \<times> string option" where
  "ChatStream src =
     (case src of
        RequestFailed e \<Rightarrow> ([OnError e], Some e)
      | Stream ls read_err \<Rightarrow>
          (case scan_lines [] ls of
             (evs, DecodeFailed e, bs) \<Rightarrow> (evs @ [OnError (''stream decode error: '' @ e)], Some e)
           | (evs, SawDone, bs) \<Rightarrow> (evs @ end_events bs @ [OnComplete], None)
           | (evs, Exhausted, bs) \<Rightarrow>
               (case read_err of
                  Some e \<Rightarrow> (evs @ [OnError (''stream error: '' @ e)], Some e)
                | None \<Rightarrow> (evs @ end_events bs @ [OnComplete], None))))"

text \<open>The builders as they stand when the scan of the lines \<open>ls\<close> ends.\<close>

definition stream_builders :: "sse_line list \<Rightarrow> builders" where
  "stream_builders ls = snd (snd (scan_lines [] ls))"

text \<open>The tool-call entries that the scan of \<open>ls\<close> processes, in order.\<close>

fun seen_deltas :: "sse_line list \<Rightarrow> chatToolCallDelta list" where
  "seen_deltas [] = []"
| "seen_deltas (NoData # ls) = seen_deltas ls"
| "seen_deltas (DataEmpty # ls) = seen_deltas ls"
| "seen_deltas (DataDone # ls) = []"
| "seen_deltas (DataInvalid e # ls) = []"
| "seen_deltas (DataChunk cs # ls) =
     (case cs of [] \<Rightarrow> [] | choice # _ \<Rightarrow> Delta_ToolCalls choice) @ seen_deltas ls"

text \<open>The stream of the reconstruction scenario.\<close>

definition tool_delta :: "int \<Rightarrow> string \<Rightarrow> string \<Rightarrow> string \<Rightarrow> sse_line" where
  "tool_delta idx i n a =
     DataChunk [\<lparr>Delta_Content = [],
                 Delta_ToolCalls = [\<lparr>Index = idx, ID = i, Type = [], Function_Name = n,
                                     Function_Arguments = a\<rparr>],
                 FinishReason = []\<rparr>]"

definition scenario_lines :: "sse_line list" where
  \<open>scenario_lines =
     [tool_delta 0 ''A'' ''f'' [], tool_delta 0 [] [] ''{"x":'', tool_delta 0 [] [] ''1}'',
      DataDone]\<close>

text \<open>Start events carry an id and a name that are both known.\<close>

definition start_known :: "StreamEvent \<Rightarrow> bool" where
  "start_known e = (case e of OnToolCallStart i n \<Rightarrow> i \<noteq> [] \<and> n \<noteq> [] | _ \<Rightarrow> True)"

definition not_end :: "StreamEvent \<Rightarrow> bool" where
  "not_end e = (case e of OnToolCallEnd i \<Rightarrow> False | _ \<Rightarrow> True)"

text \<open>The arguments accumulated under an index (empty when the index has no builder).\<close>

definition args_of :: "builders \<Rightarrow> int \<Rightarrow> string" where
  "args_of bs idx = (case map_of bs idx of Some b \<Rightarrow> bArguments b | None \<Rightarrow> [])"

section \<open>Tool values, schemas and the registry (pkg/tools)\<close>

text \<open>
  Go errors are kept as values carrying their message.
\<close>

datatype error = Err string

text \<open>
  The dynamic values (\<open>interface{}\<close>) that tool arguments and schemas hold:
  \<open>nil\<close>, strings, booleans, the integer kinds, \<open>float64\<close> (what
  \<open>json.Unmarshal\<close> yields for a number; kept as an exact real), \<open>[]string\<close>,
  \<open>[]interface{}\<close> and \<open>map[string]interface{}\<close>.  A Go map is an association
  list; a loop over the map visits the list in order.
\<close>

datatype gv =
    GNil
  | GString string
  | GBool bool
  | GInt int
  | GFloat real
  | GStrings "string list"
  | GArray "gv list"
  | GObject "(string \<times> gv) list"

type_synonym gmap = "(string \<times> gv) list"

text \<open>
  Library functions that the validator calls and that are not part of the
  repository: \<open>%v\<close> formatting of \<open>fmt\<close> and \<open>reflect.DeepEqual\<close>.
\<close>

record golib =
  Sprint :: "gv \<Rightarrow> string"
  DeepEqual :: "gv \<Rightarrow> gv \<Rightarrow> bool"

text \<open>Type assertions with their zero values.\<close>

definition as_string :: "gv option \<Rightarrow> string" where
  "as_string v = (case v of Some (GString s) \<Rightarrow> s | _ \<Rightarrow> [])"

definition as_map :: "gv option \<Rightarrow> gmap" where
  "as_map v = (case v of Some (GObject m) \<Rightarrow> m | _ \<Rightarrow> [])"

definition as_float :: "gv option \<Rightarrow> real option" where
  "as_float v = (case v of Some (GFloat r) \<Rightarrow> Some r | _ \<Rightarrow> None)"

text \<open>Conversion of a \<open>float64\<close> to an integer: truncation toward zero.\<close>

definition trunc :: "real \<Rightarrow> int" where
  "trunc r = (if 0 \<le> r then \<lfloor>r\<rfloor> else \<lceil>r\<rceil>)"

text \<open>Decimal rendering (\<open>%d\<close>).\<close>

definition digit_char :: "nat \<Rightarrow> char" where
  "digit_char n = char_of (48 + n)"

function show_nat :: "nat \<Rightarrow> string" where
  "show_nat n = (if n < 10 then [digit_char n] else show_nat (n div 10) @ [digit_char (n mod 10)])"
  by pat_completeness auto
termination
  by (relation "measure id") auto

declare show_nat.simps [simp del]

definition show_int :: "int \<Rightarrow> string" where
  "show_int i = (if i < 0 then ''-'' @ show_nat (nat (- i)) else show_nat (nat i))"

definition squote :: string where
  "squote = [CHR 0x27]"

text \<open>
  \<open>isInteger\<close> compares a \<open>float64\<close> with its round trip through \<open>int64\<close>;
  the model takes the conversion as exact truncation (values within the range of
  \<open>int64\<close>).  The sized integer kinds are one constructor, \<open>float32\<close> is not
  modelled.
\<close>

fun isInteger :: "gv \<Rightarrow> bool" where
  "isInteger (GInt n) = True"
| "isInteger (GFloat r) = (r = of_int (trunc r))"
| "isInteger _ = False"

fun isNumber :: "gv \<Rightarrow> bool" where
  "isNumber (GInt n) = True"
| "isNumber (GFloat r) = True"
| "isNumber _ = False"

fun toFloat64 :: "gv \<Rightarrow> real" where
  "toFloat64 (GInt n) = of_int n"
| "toFloat64 (GFloat r) = r"
| "toFloat64 _ = 0"

text \<open>The two loops over \<open>schema["required"]\<close>.\<close>

fun required_strings :: "string list \<Rightarrow> gmap \<Rightarrow> string option" where
  "required_strings [] params = None"
| "required_strings (reqStr # rs) params =
     (if map_of params reqStr = None then Some (''missing required parameter: '' @ reqStr)
      else required_strings rs params)"

fun required_values :: "gv list \<Rightarrow> gmap \<Rightarrow> string option" where
  "required_values [] params = None"
| "required_values (GString reqStr # rs) params =
     (if map_of params reqStr = None then Some (''missing required parameter: '' @ reqStr)
      else required_values rs params)"
| "required_values (_ # rs) params = required_values rs params"

definition check_required :: "gmap \<Rightarrow> gmap \<Rightarrow> string option" where
  "check_required schema params =
     (case map_of schema ''required'' of
        Some (GStrings required) \<Rightarrow> required_strings required params
      | Some (GArray required) \<Rightarrow> required_values required params
      | _ \<Rightarrow> None)"

text \<open>The bounds of a numeric property.\<close>

definition check_range :: "golib \<Rightarrow> gmap \<Rightarrow> real \<Rightarrow> string \<Rightarrow> string option" where
  "check_range lib schema num path =
     (case as_float (map_of schema ''minimum'') of
        Some minimum \<Rightarrow>
          if num < minimum then Some (path @ '' must be >= '' @ Sprint lib (GFloat minimum))
          else (case as_float (map_of schema ''maximum'') of
                  Some maximum \<Rightarrow>
                    if num > maximum
                    then Some (path @ '' must be <= '' @ Sprint lib (GFloat maximum)) else None
                | None \<Rightarrow> None)
      | None \<Rightarrow>
          (case as_float (map_of schema ''maximum'') of
             Some maximum \<Rightarrow>
               if num > maximum
               then Some (path @ '' must be <= '' @ Sprint lib (GFloat maximum)) else None
           | None \<Rightarrow> None))"

definition check_length :: "gmap \<Rightarrow> string \<Rightarrow> string \<Rightarrow> string option" where
  "check_length schema str path =
     (case as_float (map_of schema ''minLength'') of
        Some minLen \<Rightarrow>
          if real (length str) < minLen
          then Some (path @ '' must be at least '' @ show_int (trunc minLen) @ '' chars'')
          else (case as_float (map_of schema ''maxLength'') of
                  Some maxLen \<Rightarrow>
                    if real (length str) > maxLen
                    then Some (path @ '' must be at most '' @ show_int (trunc maxLen) @ '' chars'')
                    else None
                | None \<Rightarrow> None)
      | None \<Rightarrow>
          (case as_float (map_of schema ''maxLength'') of
             Some maxLen \<Rightarrow>
               if real (length str) > maxLen
               then Some (path @ '' must be at most '' @ show_int (trunc maxLen) @ '' chars'')
               else None
           | None \<Rightarrow> None))"

text \<open>The enum check that follows the type switch of \<open>validateValue\<close>.\<close>

definition check_enum :: "golib \<Rightarrow> gmap \<Rightarrow> gv \<Rightarrow> string \<Rightarrow> string option" where
  "check_enum lib schema v path =
     (case map_of schema ''enum'' of
        Some (GArray enum) \<Rightarrow>
          if list_ex (\<lambda>x. DeepEqual lib v x) enum then None
          else Some (path @ '' must be one of '' @ Sprint lib (GArray enum))
      | _ \<Rightarrow> None)"

text \<open>
  The cases of the type switch of \<open>validateValue\<close> that do not recurse:
  \<open>"string"\<close>, \<open>"integer"\<close>, \<open>"number"\<close> and \<open>"boolean"\<close>.  Any other type
  passes here.
\<close>

definition check_scalar :: "golib \<Rightarrow> gv \<Rightarrow> gmap \<Rightarrow> string \<Rightarrow> string option" where
  "check_scalar lib v schema path =
     (if as_string (map_of schema ''type'') = ''string'' then
        (case v of
           GString str \<Rightarrow> check_length schema str path
         | _ \<Rightarrow> Some (path @ '' should be string''))
      else if as_string (map_of schema ''type'') = ''integer'' then
        (if \<not> isInteger v then Some (path @ '' should be integer'')
         else check_range lib schema (toFloat64 v) path)
      else if as_string (map_of schema ''type'') = ''number'' then
        (if \<not> isNumber v then Some (path @ '' should be number'')
         else check_range lib schema (toFloat64 v) path)
      else if as_string (map_of schema ''type'') = ''boolean'' then
        (case v of GBool b \<Rightarrow> None | _ \<Rightarrow> Some (path @ '' should be boolean''))
      else None)"

text \<open>\<open>schema["items"].(map[string]interface{})\<close> and the lookup of a property's schema.\<close>

definition items_schema :: "gmap \<Rightarrow> gmap option" where
  "items_schema schema = (case map_of schema ''items'' of Some (GObject m) \<Rightarrow> Some m | _ \<Rightarrow> None)"

definition property_schema :: "gmap \<Rightarrow> string \<Rightarrow> gmap option" where
  "property_schema properties key =
     (case map_of properties key of Some (GObject m) \<Rightarrow> Some m | _ \<Rightarrow> None)"

definition schema_type_error :: "gmap \<Rightarrow> string" where
  "schema_type_error schema =
     ''schema type must be '' @ squote @ ''object'' @ squote @ '', got '' @ squote
     @ as_string (map_of schema ''type'') @ squote"

text \<open>
  \<open>validateValue\<close> and \<open>ValidateParams\<close> call each other; \<open>validate_items\<close>
  is the loop over an array (with the running index) and \<open>validate_fields\<close>
  the loop over the arguments.  A \<open>nil\<close> schema is \<open>None\<close>.  The type switch
  tests the two recursive cases, \<open>"array"\<close> and \<open>"object"\<close>, and leaves the
  other (disjoint) cases to \<open>check_scalar\<close>; the enum check follows the switch.
\<close>

function (sequential) validateValue :: "golib \<Rightarrow> gv \<Rightarrow> gmap \<Rightarrow> string \<Rightarrow> string option"
  and validate_items :: "golib \<Rightarrow> gv list \<Rightarrow> gmap \<Rightarrow> string \<Rightarrow> nat \<Rightarrow> string option"
  and ValidateParams :: "golib \<Rightarrow> gmap option \<Rightarrow> gmap \<Rightarrow> string option"
  and validate_fields :: "golib \<Rightarrow> gmap \<Rightarrow> gmap \<Rightarrow> string option"
where
  "validateValue lib v schema path =
     (case
        (if as_string (map_of schema ''type'') = ''array'' then
           (case v of
              GArray arr \<Rightarrow>
                (case items_schema schema of
                   Some itemsSchema \<Rightarrow> validate_items lib arr itemsSchema path 0
                 | None \<Rightarrow> None)
            | _ \<Rightarrow> Some (path @ '' should be array''))
         else if as_string (map_of schema ''type'') = ''object'' then
           (case v of
              GObject obj \<Rightarrow>
                (case ValidateParams lib (Some schema) obj of
                   Some e \<Rightarrow> Some (path @ ''.'' @ e)
                 | None \<Rightarrow> None)
            | _ \<Rightarrow> Some (path @ '' should be object''))
         else check_scalar lib v schema path)
      of
        Some e \<Rightarrow> Some e
      | None \<Rightarrow> check_enum lib schema v path)"
| "validate_items lib [] itemsSchema path i = None"
| "validate_items lib (item # items) itemsSchema path i =
     (case validateValue lib item itemsSchema (path @ ''['' @ show_int (int i) @ '']'') of
        Some e \<Rightarrow> Some e
      | None \<Rightarrow> validate_items lib items itemsSchema path (Suc i))"
| "ValidateParams lib None params = None"
| "ValidateParams lib (Some schema) params =
     (if as_string (map_of schema ''type'') \<noteq> ''object'' then Some (schema_type_error schema)
      else (case check_required schema params of
              Some e \<Rightarrow> Some e
            | None \<Rightarrow> validate_fields lib (as_map (map_of schema ''properties'')) params))"
| "validate_fields lib properties [] = None"
| "validate_fields lib properties ((key, v) # rest) =
     (case property_schema properties key of
        Some propMap \<Rightarrow>
          (case validateValue lib v propMap key of
             Some e \<Rightarrow> Some e
           | None \<Rightarrow> validate_fields lib properties rest)
      | None \<Rightarrow> validate_fields lib properties rest)"
  by pat_completeness auto
termination
  apply (relation "measure (\<lambda>x. case x of
      Inl (Inl (lib, v, schema, path)) \<Rightarrow> 2 * size v
    | Inl (Inr (lib, arr, itemsSchema, path, i)) \<Rightarrow> 2 * size_list size arr + 1
    | Inr (Inl (lib, schema, params)) \<Rightarrow> 2 * size_list (size_prod (\<lambda>_. 0) size) params + 1
    | Inr (Inr (lib, properties, params)) \<Rightarrow> 2 * size_list (size_prod (\<lambda>_. 0) size) params)")
  apply simp_all
  done

declare validateValue.simps [simp del]

text \<open>A tool: its name, description, parameter schema and executor.  The executor
  acts on the world outside the registry (files, processes, the message bus),
  which is the state \<open>'w\<close> it transforms.\<close>

record 'w Tool =
  Name :: string
  Description :: string
  Parameters :: "gmap option"
  Execute :: "gmap \<Rightarrow> 'w \<Rightarrow> (error + string) \<times> 'w"

record 'w Registry =
  tools :: "string \<rightharpoonup> 'w Tool"

definition NewRegistry :: "'w Registry" where
  "NewRegistry = \<lparr>tools = Map.empty\<rparr>"

text \<open>\<open>Register\<close>; a \<open>nil\<close> tool is \<open>None\<close>.\<close>

definition Register :: "'w Registry \<Rightarrow> 'w Tool option \<Rightarrow> error + 'w Registry" where
  "Register r tool =
     (case tool of
        None \<Rightarrow> Inl (Err ''tool cannot be nil'')
      | Some t \<Rightarrow>
          if Name t = [] then Inl (Err ''tool name cannot be empty'')
          else Inr (r\<lparr>tools := (tools r)(Name t \<mapsto> t)\<rparr>))"

definition Registry_Get :: "'w Registry \<Rightarrow> string \<Rightarrow> 'w Tool option" where
  "Registry_Get r name = tools r name"

text \<open>\<open>Registry.Execute\<close>.\<close>

definition Registry_Execute ::
  "golib \<Rightarrow> 'w Registry \<Rightarrow> string \<Rightarrow> gmap \<Rightarrow> 'w \<Rightarrow> (error + string) \<times> 'w" where
  "Registry_Execute lib r name params w =
     (case Registry_Get r name of
        None \<Rightarrow> (Inl (Err (''tool not found: '' @ name)), w)
      | Some tool \<Rightarrow>
          (case ValidateParams lib (Parameters tool) params of
             Some e \<Rightarrow> (Inr (''Invalid parameters: '' @ e), w)
           | None \<Rightarrow> Execute tool params w))"

text \<open>
  The parameter schema of \<open>read_file\<close> (\<open>NewReadFileTool\<close>), and a tool with that
  schema whose executor counts its invocations in the world.
\<close>

definition read_file_parameters :: gmap where
  "read_file_parameters =
     [(''type'', GString ''object''),
      (''properties'', GObject
         [(''path'', GObject
             [(''type'', GString ''string''),
              (''description'', GString ''Path to the file to read'')]),
          (''limit'', GObject
             [(''type'', GString ''integer''),
              (''description'', GString ''Maximum number of lines to read (optional)''),
              (''minimum'', GInt 1),
              (''maximum'', GInt 1000)]),
          (''offset'', GObject
             [(''type'', GString ''integer''),
              (''description'', GString ''Line offset to start reading from (0-indexed, optional)''),
              (''minimum'', GInt 0)])]),
      (''required'', GStrings [''path''])]"

definition counting_tool :: "nat Tool" where
  "counting_tool =
     \<lparr>Name = ''read_file'', Description = ''Read the contents of a file.'',
      Parameters = Some read_file_parameters,
      Execute = (\<lambda>params w. (Inr ''content'', Suc w))\<rparr>"

definition counting_registry :: "nat Registry" where
  "counting_registry = \<lparr>tools = [''read_file'' \<mapsto> counting_tool]\<rparr>"

definition plain_lib :: golib where
  "plain_lib = \<lparr>Sprint = (\<lambda>v. []), DeepEqual = (\<lambda>a b. a = b)\<rparr>"

section \<open>File tools and the sandbox root (pkg/tools/filesystem.go)\<close>

text \<open>
  The part of the operating system that the file tools see: the working
  directory (\<open>os.Getwd\<close>, \<open>None\<close> when it fails), the home directory
  (\<open>os.UserHomeDir\<close>) and the regular files by absolute path.  Symbolic links
  are not modelled, and the message of an operating-system error is a fixed text.
\<close>

record os_env =
  cwd :: "string option"
  home :: "string option"
  files :: "string \<rightharpoonup> string"

definition NL :: char where
  "NL = CHR 0x0A"

text \<open>\<open>strings.Split\<close> for a one-byte separator and \<open>strings.Join\<close>.\<close>

fun split_on :: "char \<Rightarrow> string \<Rightarrow> string list" where
  "split_on c [] = [[]]"
| "split_on c (x # xs) =
     (if x = c then [] # split_on c xs
      else (case split_on c xs of w # ws \<Rightarrow> (x # w) # ws | [] \<Rightarrow> [[x]]))"

fun join_with :: "string \<Rightarrow> string list \<Rightarrow> string" where
  "join_with sep [] = []"
| "join_with sep [x] = x"
| "join_with sep (x # y # ys) = x @ sep @ join_with sep (y # ys)"

text \<open>
  \<open>filepath.Clean\<close>, \<open>filepath.IsAbs\<close>, \<open>filepath.Join\<close> and \<open>filepath.Abs\<close>
  of the Go library for slash-separated paths.  \<open>Clean\<close> works on the
  components of the path with a stack (top first): empty components and \<open>.\<close>
  are dropped, \<open>..\<close> removes the component before it, is dropped at the root
  and is kept at the front of a relative path.
\<close>

definition clean_step :: "bool \<Rightarrow> string list \<Rightarrow> string \<Rightarrow> string list" where
  "clean_step rooted st el =
     (if el = [] \<or> el = ''.'' then st
      else if el = ''..'' then
        (case st of
           [] \<Rightarrow> if rooted then [] else [''..'']
         | t # ts \<Rightarrow> if t = ''..'' then ''..'' # st else ts)
      else el # st)"

definition Clean :: "string \<Rightarrow> string" where
  "Clean path =
     (if path = [] then ''.''
      else
        let rooted = (hd path = CHR ''/'');
            body = join_with ''/'' (rev (foldl (clean_step rooted) [] (split_on (CHR ''/'') path)))
        in if rooted then ''/'' @ body else if body = [] then ''.'' else body)"

definition IsAbs :: "string \<Rightarrow> bool" where
  "IsAbs path = HasPrefix path ''/''"

fun Join :: "string list \<Rightarrow> string" where
  "Join [] = []"
| "Join (e # es) = (if e \<noteq> [] then Clean (join_with ''/'' (e # es)) else Join es)"

definition Abs :: "os_env \<Rightarrow> string \<Rightarrow> error + string" where
  "Abs env path =
     (if IsAbs path then Inr (Clean path)
      else (case cwd env of
              None \<Rightarrow> Inl (Err ''getwd: no such file or directory'')
            | Some wd \<Rightarrow> Inr (Join [wd, path])))"

definition error_text :: "error \<Rightarrow> string" where
  "error_text e = (case e of Err s \<Rightarrow> s)"

text \<open>
  \<open>isPathAllowed\<close>; the process-wide variable \<open>allowedDir\<close> is an argument.
  \<open>None\<close> is the \<open>nil\<close> error.
\<close>

definition isPathAllowed :: "os_env \<Rightarrow> string \<Rightarrow> string \<Rightarrow> error option" where
  "isPathAllowed env allowedDir path =
     (if allowedDir = [] then None
      else (case Abs env path of
              Inl e \<Rightarrow> Some (Err (''invalid path: '' @ error_text e))
            | Inr absPath \<Rightarrow>
                (case Abs env allowedDir of
                   Inl e \<Rightarrow> Some (Err (''invalid allowed directory: '' @ error_text e))
                 | Inr absAllowed \<Rightarrow>
                     if \<not> HasPrefix absPath absAllowed
                     then Some (Err (''path '' @ absPath @ '' is outside of allowed directory ''
                                     @ absAllowed))
                     else None)))"

definition resolvePath :: "os_env \<Rightarrow> string \<Rightarrow> string \<Rightarrow> error + string" where
  "resolvePath env allowedDir path =
     (case (if HasPrefix path ''~/''
            then (case home env of
                    None \<Rightarrow> Inl (Err ''$HOME is not defined'')
                  | Some homeDir \<Rightarrow> Inr (Join [homeDir, drop 2 path]))
            else Inr path) of
        Inl e \<Rightarrow> Inl e
      | Inr path1 \<Rightarrow>
          (case Abs env path1 of
             Inl e \<Rightarrow> Inl e
           | Inr absPath \<Rightarrow>
               (case isPathAllowed env allowedDir absPath of
                  Some e \<Rightarrow> Inl e
                | None \<Rightarrow> Inr absPath)))"

text \<open>\<open>os.ReadFile\<close> on the modelled files.\<close>

definition ReadFile :: "os_env \<Rightarrow> string \<Rightarrow> error + string" where
  "ReadFile env path =
     (case files env path of
        None \<Rightarrow> Inl (Err (''open '' @ path @ '': no such file or directory''))
      | Some content \<Rightarrow> Inr content)"

text \<open>
  The reading of \<open>offset\<close> and \<open>limit\<close>: a \<open>float64\<close> is truncated, an \<open>int\<close>
  is taken as it is, anything else leaves the default 0.
\<close>

definition int_param :: "gmap \<Rightarrow> string \<Rightarrow> int" where
  "int_param params key =
     (case map_of params key of
        Some (GFloat v) \<Rightarrow> trunc v
      | Some (GInt v) \<Rightarrow> v
      | _ \<Rightarrow> 0)"

text \<open>\<open>ReadFileTool.Execute\<close>.\<close>

definition ReadFileTool_Execute :: "os_env \<Rightarrow> string \<Rightarrow> gmap \<Rightarrow> error + string" where
  "ReadFileTool_Execute env allowedDir params =
     (let path = as_string (map_of params ''path'') in
      if path = [] then Inl (Err ''path is required'')
      else (case resolvePath env allowedDir path of
              Inl e \<Rightarrow> Inl e
            | Inr resolvedPath \<Rightarrow>
                (case ReadFile env resolvedPath of
                   Inl e \<Rightarrow> Inl (Err (''failed to read file: '' @ error_text e))
                 | Inr content \<Rightarrow>
                     (let offset = int_param params ''offset'';
                          limit = int_param params ''limit'';
                          lines = split_on NL content
                      in if offset > 0 \<and> offset \<ge> int (length lines)
                         then Inl (Err ''offset exceeds file length'')
                         else
                           let lines1 = (if offset > 0 then drop (nat offset) lines else lines);
                               lines2 = (if limit > 0 \<and> limit < int (length lines1)
                                         then take (nat limit) lines1 else lines1)
                           in Inr (join_with [NL] lines2)))))"

text \<open>
  \<open>WriteFileTool.Execute\<close>; the creation of the parent directories and the
  write itself are taken to succeed.
\<close>

definition WriteFileTool_Execute ::
  "os_env \<Rightarrow> string \<Rightarrow> gmap \<Rightarrow> (error + string) \<times> os_env" where
  "WriteFileTool_Execute env allowedDir params =
     (let path = as_string (map_of params ''path'');
          content = as_string (map_of params ''content'')
      in if path = [] then (Inl (Err ''path is required''), env)
         else (case resolvePath env allowedDir path of
                 Inl e \<Rightarrow> (Inl e, env)
               | Inr resolvedPath \<Rightarrow>
                   (Inr (''File written successfully: '' @ resolvedPath),
                    env\<lparr>files := (files env)(resolvedPath \<mapsto> content)\<rparr>)))"

text \<open>
  A path lies beneath a root when the components of the root are a prefix of
  the components of the path.
\<close>

definition components :: "string \<Rightarrow> string list" where
  "components path = filter (\<lambda>c. c \<noteq> []) (split_on (CHR ''/'') path)"

definition lies_beneath :: "string \<Rightarrow> string \<Rightarrow> bool" where
  "lies_beneath base path =
     (take (length (components base)) (components path) = components base)"

text \<open>
  \<open>NewReadFileTool\<close>: the tool as it is registered, with the schema of the
  source (its bounds are written as Go \<open>int\<close> literals) and
  \<open>ReadFileTool.Execute\<close> as executor; the world is the operating-system part
  above, the sandbox root is an argument.
\<close>

definition NewReadFileTool :: "string \<Rightarrow> os_env Tool" where
  "NewReadFileTool allowedDir =
     \<lparr>Name = ''read_file'',
      Description = ''Read the contents of a file. Use for viewing code, logs, or any text file.'',
      Parameters = Some read_file_parameters,
      Execute = (\<lambda>params env. (ReadFileTool_Execute env allowedDir params, env))\<rparr>"

definition file_registry :: "string \<Rightarrow> os_env Registry" where
  "file_registry allowedDir = \<lparr>tools = [''read_file'' \<mapsto> NewReadFileTool allowedDir]\<rparr>"

text \<open>A library whose \<open>%v\<close> prints a whole \<open>float64\<close> in decimal digits.\<close>

definition decimal_lib :: golib where
  "decimal_lib =
     \<lparr>Sprint = (\<lambda>v. case v of GFloat x \<Rightarrow> show_int (trunc x) | _ \<Rightarrow> []),
      DeepEqual = (\<lambda>a b. a = b)\<rparr>"

text \<open>
  An object schema with the one integer property \<open>limit\<close> and the upper bound
  \<open>m\<close>, which is a \<open>float64\<close> in the schema of \<open>TestValidateParams\<close> and an
  \<open>int\<close> in the schemas of the built-in tools.
\<close>

definition limit_schema :: "gv \<Rightarrow> gmap" where
  "limit_schema m =
     [(''type'', GString ''object''),
      (''properties'', GObject
         [(''limit'', GObject [(''type'', GString ''integer''), (''maximum'', m)])])]"

text \<open>Concrete environments for the runs below.\<close>

definition sibling_env :: os_env where
  "sibling_env =
     \<lparr>cwd = Some ''/ws'', home = Some ''/root'',
      files = [''/ws-evil/secret.txt'' \<mapsto> ''s3cret'', ''/ws/empty.txt'' \<mapsto> [],
               ''/ws/test.txt'' \<mapsto> ''line1'' @ [NL] @ ''line2'' @ [NL] @ ''line3'']\<rparr>"

section \<open>The shell tool (pkg/tools/shell.go)\<close>

text \<open>How the child process of \<open>exec\<close> ends: \<open>cmd.CombinedOutput\<close> returns no
  error, an error after the deadline of the context has passed, or another error
  (with its message).\<close>

datatype run_status = Exited | TimedOut | Failed string

text \<open>
  What \<open>ExecTool.Execute\<close> uses from outside the repository and from the
  sandbox check of the same file:
  \<^item> \<open>lower\<close>: \<open>strings.ToLower\<close>;
  \<^item> \<open>MatchString pattern s\<close>: \<open>regexp.MatchString\<close>, \<open>None\<close> when the pattern
    does not compile;
  \<^item> \<open>cleanAbsPath\<close> and \<open>validateCommandInWorkspace\<close>: the path checks of
    restricted mode, which either return an error or let the command run;
  \<^item> \<open>run command dir timeout\<close>: the combined output of \<open>sh -c command\<close> in
    the directory \<open>dir\<close> under the timeout (in seconds), and how it ended;
  \<^item> \<open>show_duration\<close>: \<open>%v\<close> of a \<open>time.Duration\<close> given in seconds.
\<close>

record exec_env =
  lower :: "string \<Rightarrow> string"
  MatchString :: "string \<Rightarrow> string \<Rightarrow> bool option"
  cleanAbsPath :: "string \<Rightarrow> error + string"
  validateCommandInWorkspace :: "string \<Rightarrow> string \<Rightarrow> error option"
  run :: "string \<Rightarrow> string \<Rightarrow> int \<Rightarrow> string \<times> run_status"
  show_duration :: "int \<Rightarrow> string"

definition backslash :: string where
  "backslash = [CHR 0x5C]"

definition dangerousPatterns :: "string list" where
  "dangerousPatterns =
     [''rm'' @ backslash @ ''s+-rf'' @ backslash @ ''s+/'',
      ''rm'' @ backslash @ ''s+-rf'' @ backslash @ ''s+/'' @ backslash @ ''s'',
      ''mkfs'' @ backslash @ ''.'',
      ''dd'' @ backslash @ ''s+if=.*of=/dev/'',
      '':(){ :|:& };:'',
      ''>'' @ backslash @ ''s*/dev/sda'',
      ''>'' @ backslash @ ''s*/dev/hda'',
      ''chmod'' @ backslash @ ''s+-R'' @ backslash @ ''s+000'' @ backslash @ ''s+/'']"

fun match_patterns :: "exec_env \<Rightarrow> string list \<Rightarrow> string \<Rightarrow> error option" where
  "match_patterns env [] lowerCmd = None"
| "match_patterns env (pattern # ps) lowerCmd =
     (case MatchString env pattern lowerCmd of
        None \<Rightarrow> match_patterns env ps lowerCmd
      | Some matched \<Rightarrow>
          if matched
          then Some (Err (''dangerous command detected: pattern '' @ squote @ pattern @ squote
                          @ '' matched''))
          else match_patterns env ps lowerCmd)"

definition isDangerousCommand :: "exec_env \<Rightarrow> string \<Rightarrow> error option" where
  "isDangerousCommand env command = match_patterns env dangerousPatterns (lower env command)"

record ExecTool =
  WorkingDir :: string
  Timeout :: int
  RestrictToWorkspace :: bool

definition NewExecTool :: "string \<Rightarrow> int \<Rightarrow> bool \<Rightarrow> ExecTool" where
  "NewExecTool workingDir timeout restrictToWorkspace =
     \<lparr>WorkingDir = workingDir, Timeout = (if timeout \<le> 0 then 60 else timeout),
      RestrictToWorkspace = restrictToWorkspace\<rparr>"

definition maxOutputSize :: nat where
  "maxOutputSize = 10 * 1024"

definition truncation_marker :: string where
  "truncation_marker = [NL] @ ''... (output truncated)''"

definition truncate_output :: "string \<Rightarrow> string" where
  "truncate_output output =
     (if length output > maxOutputSize then take maxOutputSize output @ truncation_marker
      else output)"

text \<open>The timeout in force: the tool's, unless the arguments carry a positive one.\<close>

definition exec_timeout :: "ExecTool \<Rightarrow> gmap \<Rightarrow> int" where
  "exec_timeout t params =
     (case map_of params ''timeout'' of
        Some (GFloat v) \<Rightarrow> if trunc v > 0 then trunc v else Timeout t
      | _ \<Rightarrow> Timeout t)"

text \<open>The line that precedes the output when the command did not end well.\<close>

definition status_line :: "exec_env \<Rightarrow> int \<Rightarrow> run_status \<Rightarrow> string" where
  "status_line env timeout st =
     (case st of
        Exited \<Rightarrow> []
      | TimedOut \<Rightarrow>
          ''Command timed out after '' @ show_duration env timeout @ [NL] @ ''Partial output:'' @ [NL]
      | Failed e \<Rightarrow> ''Command failed: '' @ e @ [NL] @ ''Output:'' @ [NL])"

text \<open>\<open>ExecTool.Execute\<close>.\<close>

definition ExecTool_Execute :: "exec_env \<Rightarrow> ExecTool \<Rightarrow> gmap \<Rightarrow> error + string" where
  "ExecTool_Execute env t params =
     (let command = as_string (map_of params ''command'') in
      if command = [] then Inl (Err ''command is required'')
      else (case isDangerousCommand env command of
              Some e \<Rightarrow> Inl e
            | None \<Rightarrow>
                (case (if RestrictToWorkspace t \<and> WorkingDir t \<noteq> []
                       then (case cleanAbsPath env (WorkingDir t) of
                               Inl e \<Rightarrow> Some (Err (''invalid workspace: '' @ error_text e))
                             | Inr workspace \<Rightarrow> validateCommandInWorkspace env command workspace)
                       else None) of
                   Some e \<Rightarrow> Inl e
                 | None \<Rightarrow>
                     if RestrictToWorkspace t \<and> WorkingDir t = []
                     then Inl (Err ''restrictToWorkspace enabled but working directory is empty'')
                     else
                       (case run env command (WorkingDir t) (exec_timeout t params) of
                          (output, st) \<Rightarrow>
                            Inr (status_line env (exec_timeout t params) st
                                 @ truncate_output output)))))"

text \<open>The output and the ending of the child process that \<open>Execute\<close> starts.\<close>

definition exec_run :: "exec_env \<Rightarrow> ExecTool \<Rightarrow> gmap \<Rightarrow> string \<times> run_status" where
  "exec_run env t params =
     run env (as_string (map_of params ''command'')) (WorkingDir t) (exec_timeout t params)"

text \<open>
  An environment without dangerous patterns and path violations in which every
  command prints \<open>out\<close> and ends as \<open>st\<close>.
\<close>

definition command_env :: "string \<Rightarrow> run_status \<Rightarrow> exec_env" where
  "command_env out st =
     \<lparr>lower = ascii_lower, MatchString = (\<lambda>pattern s. Some False),
      cleanAbsPath = (\<lambda>p. Inr p), validateCommandInWorkspace = (\<lambda>c w. None),
      run = (\<lambda>c d t. (out, st)),
      show_duration = (\<lambda>t. show_int t @ ''s'')\<rparr>"

text \<open>A file system with one file of 20000 bytes.\<close>

definition big_env :: os_env where
  "big_env =
     \<lparr>cwd = Some ''/ws'', home = Some ''/root'',
      files = [''/ws/big.txt'' \<mapsto> replicate 20000 (CHR ''a'')]\<rparr>"

text \<open>An environment in which \<open>yes\<close> prints 20000 bytes and exits.\<close>

definition yes_env :: exec_env where
  "yes_env =
     \<lparr>lower = ascii_lower, MatchString = (\<lambda>pattern s. Some False),
      cleanAbsPath = (\<lambda>p. Inr p), validateCommandInWorkspace = (\<lambda>c w. None),
      run = (\<lambda>c d t. (replicate 20000 (CHR ''y''), Exited)),
      show_duration = (\<lambda>t. show_int t @ ''s'')\<rparr>"

section \<open>Session manager (internal/session)\<close>

text \<open>
  The manager caches sessions by key and keeps one file per key.  A file is
  modelled by the session it decodes to (a file that cannot be read or decoded
  counts as absent), \<open>getSessionFilePath\<close> gives the file of a key (the
  sanitised key under \<open>.sessions\<close> of the workspace), and \<open>writable\<close> tells
  whether creating the directory and writing a file succeed.

  The cache holds sessions by reference: the session that \<open>GetOrCreate\<close>
  returns is the object stored under the key, so an append on it is seen
  through the cache.  In the model the caller writes the changed session back
  under that key.  The session files are kept apart from the world that the
  tools act on: a tool that writes into the directory of the sessions is
  outside the model.
\<close>

record Manager =
  sessions :: "string \<rightharpoonup> Session"
  disk :: "string \<rightharpoonup> Session"
  getSessionFilePath :: "string \<Rightarrow> string"
  writable :: bool

definition loadFromFile :: "Manager \<Rightarrow> string \<Rightarrow> Session option" where
  "loadFromFile m key = disk m (getSessionFilePath m key)"

definition GetOrCreate :: "Manager \<Rightarrow> string \<Rightarrow> Session \<times> Manager" where
  "GetOrCreate m key =
     (case sessions m key of
        Some session \<Rightarrow> (session, m)
      | None \<Rightarrow>
          (let session = (case loadFromFile m key of
                            Some s \<Rightarrow> s
                          | None \<Rightarrow> \<lparr>Key = key, Messages = []\<rparr>)
           in (session, m\<lparr>sessions := (sessions m)(key \<mapsto> session)\<rparr>)))"

definition saveToFile :: "Manager \<Rightarrow> Session \<Rightarrow> error option \<times> Manager" where
  "saveToFile m session =
     (if writable m
      then (None, m\<lparr>disk := (disk m)(getSessionFilePath m (Key session) \<mapsto> session)\<rparr>)
      else (Some (Err ''failed to write session file''), m))"

definition Save :: "Manager \<Rightarrow> Session \<Rightarrow> error option \<times> Manager" where
  "Save m session = saveToFile (m\<lparr>sessions := (sessions m)(Key session \<mapsto> session)\<rparr>) session"

section \<open>The agent loop (internal/agent)\<close>

record ToolCall =
  tcID :: string
  tcType :: string
  tcName :: string
  tcArguments :: string

record Message =
  mRole :: string
  mContent :: string
  mToolCallID :: string
  mToolCalls :: "ToolCall list"

record InboundMessage =
  in_Channel :: string
  in_SenderID :: string
  in_ChatID :: string
  in_Content :: string
  in_Media :: "string option"
  in_SessionKey :: string

record OutboundMessage =
  out_Channel :: string
  out_ChatID :: string
  out_Content :: string

definition NewInboundMessage :: "string \<Rightarrow> string \<Rightarrow> string \<Rightarrow> string \<Rightarrow> InboundMessage" where
  "NewInboundMessage channel senderID chatID text =
     \<lparr>in_Channel = channel, in_SenderID = senderID, in_ChatID = chatID, in_Content = text,
      in_Media = None, in_SessionKey = channel @ '':'' @ chatID\<rparr>"

definition NewOutboundMessage :: "string \<Rightarrow> string \<Rightarrow> string \<Rightarrow> OutboundMessage" where
  "NewOutboundMessage channel chatID text =
     \<lparr>out_Channel = channel, out_ChatID = chatID, out_Content = text\<rparr>"

text \<open>
  The stream handler of the loop: the text collected, the finished tool calls
  and the calls under construction by id.  Its printing to the terminal is left
  out.
\<close>

record streamHandler =
  h_content :: string
  h_toolCalls :: "ToolCall list"
  h_accumulatingCalls :: "string \<rightharpoonup> ToolCall"

definition newStreamHandler :: streamHandler where
  "newStreamHandler = \<lparr>h_content = [], h_toolCalls = [], h_accumulatingCalls = Map.empty\<rparr>"

fun handle :: "streamHandler \<Rightarrow> StreamEvent \<Rightarrow> streamHandler" where
  "handle h (OnContent token) = h\<lparr>h_content := h_content h @ token\<rparr>"
| "handle h (OnToolCallStart i name) =
     h\<lparr>h_accumulatingCalls := (h_accumulatingCalls h)
          (i \<mapsto> \<lparr>tcID = i, tcType = ''function'', tcName = name, tcArguments = []\<rparr>)\<rparr>"
| "handle h (OnToolCallDelta i delta) =
     (case h_accumulatingCalls h i of
        Some tc \<Rightarrow>
          h\<lparr>h_accumulatingCalls := (h_accumulatingCalls h)
               (i \<mapsto> tc\<lparr>tcArguments := tcArguments tc @ delta\<rparr>)\<rparr>
      | None \<Rightarrow> h)"
| "handle h (OnToolCallEnd i) =
     (case h_accumulatingCalls h i of
        Some tc \<Rightarrow>
          h\<lparr>h_toolCalls := h_toolCalls h @ [tc],
            h_accumulatingCalls := (h_accumulatingCalls h)(i := None)\<rparr>
      | None \<Rightarrow> h)"
| "handle h OnComplete = h"
| "handle h (OnError e) = h"

definition run_handler :: "StreamEvent list \<Rightarrow> streamHandler" where
  "run_handler evs = foldl handle newStreamHandler evs"

text \<open>
  What the loop takes from outside: the library (\<open>%v\<close>, \<open>DeepEqual\<close>),
  \<open>json.Unmarshal\<close> into a map (\<open>None\<close> when it fails) and the system prompt,
  which \<open>buildSystemPrompt\<close> assembles from workspace files, skills and the
  clock for a channel, a chat and the current message.
\<close>

record agent_runtime =
  rt_lib :: golib
  Unmarshal :: "string \<Rightarrow> gmap option"
  buildSystemPrompt :: "string \<Rightarrow> string \<Rightarrow> string \<Rightarrow> string"

text \<open>
  The loop object.  \<open>Provider i messages\<close> is the \<open>i\<close>-th call of
  \<open>Provider.ChatStream\<close> while one message is processed: the handler calls it
  makes and the error it returns.  \<open>registry\<close> is the field \<open>tools\<close>.
\<close>

record 'w AgentLoop =
  Provider :: "nat \<Rightarrow> Message list \<Rightarrow> StreamEvent list \<times> string option"
  Workspace :: string
  Model :: string
  MaxIterations :: int
  RestrictToWorkspace_loop :: bool
  registry :: "'w Registry"

text \<open>
  \<open>NewAgentLoop\<close>: a cap that is not positive becomes 20, and the sandbox root
  (the process-wide \<open>allowedDir\<close>, returned as second component) is set to the
  workspace in restricted mode.  The registry with the default tools is given.
\<close>

definition NewAgentLoop ::
  "(nat \<Rightarrow> Message list \<Rightarrow> StreamEvent list \<times> string option) \<Rightarrow> string \<Rightarrow> string \<Rightarrow> int \<Rightarrow> bool
     \<Rightarrow> 'w Registry \<Rightarrow> string \<Rightarrow> 'w AgentLoop \<times> string" where
  "NewAgentLoop provider workspace model maxIterations restrictToWorkspace reg allowedDir =
     (\<lparr>Provider = provider, Workspace = workspace, Model = model,
       MaxIterations = (if maxIterations \<le> 0 then 20 else maxIterations),
       RestrictToWorkspace_loop = restrictToWorkspace, registry = reg\<rparr>,
      if restrictToWorkspace then workspace else allowedDir)"

text \<open>The context builder.\<close>

definition BuildMessages ::
  "agent_runtime \<Rightarrow> Message list \<Rightarrow> string \<Rightarrow> string option \<Rightarrow> string \<Rightarrow> string \<Rightarrow> Message list" where
  "BuildMessages rt history currentMessage media channel chatID =
     [\<lparr>mRole = ''system'', mContent = buildSystemPrompt rt channel chatID currentMessage,
       mToolCallID = [], mToolCalls = []\<rparr>]
     @ history
     @ [\<lparr>mRole = ''user'',
         mContent = (case media of
                       None \<Rightarrow> currentMessage
                     | Some ty \<Rightarrow> ''[Media: '' @ ty @ ''] '' @ currentMessage),
         mToolCallID = [], mToolCalls = []\<rparr>]"

definition AddAssistantMessage :: "Message list \<Rightarrow> string \<Rightarrow> ToolCall list \<Rightarrow> Message list" where
  "AddAssistantMessage messages text toolCalls =
     messages @ [\<lparr>mRole = ''assistant'', mContent = text, mToolCallID = [],
                  mToolCalls = toolCalls\<rparr>]"

definition AddToolResult :: "Message list \<Rightarrow> string \<Rightarrow> string \<Rightarrow> string \<Rightarrow> Message list" where
  "AddToolResult messages toolCallID name result =
     messages @ [\<lparr>mRole = ''tool'', mContent = result, mToolCallID = toolCallID,
                  mToolCalls = []\<rparr>]"

definition convertSessionMessages :: "session_Message list \<Rightarrow> Message list" where
  "convertSessionMessages msgs =
     map (\<lambda>m. \<lparr>mRole = Role m, mContent = Content m, mToolCallID = [], mToolCalls = []\<rparr>) msgs"

text \<open>The loop over the tool calls of one iteration.\<close>

fun run_tools ::
  "agent_runtime \<Rightarrow> 'w AgentLoop \<Rightarrow> ToolCall list \<Rightarrow> Message list \<Rightarrow> 'w \<Rightarrow> Message list \<times> 'w" where
  "run_tools rt a [] messages w = (messages, w)"
| "run_tools rt a (tc # tcs) messages w =
     (let args = (case Unmarshal rt (tcArguments tc) of Some m \<Rightarrow> m | None \<Rightarrow> [])
      in case Registry_Execute (rt_lib rt) (registry a) (tcName tc) args w of
           (res, w1) \<Rightarrow>
             run_tools rt a tcs
               (AddToolResult messages (tcID tc) (tcName tc)
                  (case res of Inl e \<Rightarrow> ''Error: '' @ error_text e | Inr result \<Rightarrow> result))
               w1)"

text \<open>
  One entry per call of \<open>ChatStream\<close>, in order: the error it returned and what
  the handler had collected.  The entries record the run; the code keeps no such
  list.
\<close>

record Iteration =
  it_error :: "string option"
  it_content :: string
  it_toolCalls :: "ToolCall list"

text \<open>How the loop of \<open>ProcessMessage\<close> ends: by the error return, by the
  \<open>break\<close> of an iteration without tool calls (with its content), or by
  running out of iterations.\<close>

datatype loop_end = StreamError string | NoCalls string | CapHit

fun agent_loop ::
  "agent_runtime \<Rightarrow> 'w AgentLoop \<Rightarrow> nat \<Rightarrow> nat \<Rightarrow> Message list \<Rightarrow> 'w
     \<Rightarrow> loop_end \<times> Iteration list \<times> Message list \<times> 'w" where
  "agent_loop rt a 0 i messages w = (CapHit, [], messages, w)"
| "agent_loop rt a (Suc n) i messages w =
     (case Provider a i messages of
        (evs, err) \<Rightarrow>
          (let handler = run_handler evs;
               it = \<lparr>it_error = err, it_content = h_content handler,
                     it_toolCalls = h_toolCalls handler\<rparr>
           in case err of
                Some e \<Rightarrow> (StreamError e, [it], messages, w)
              | None \<Rightarrow>
                  if h_toolCalls handler \<noteq> [] then
                    (case run_tools rt a (h_toolCalls handler)
                            (AddAssistantMessage messages (h_content handler) (h_toolCalls handler))
                            w of
                       (messages1, w1) \<Rightarrow>
                         (case agent_loop rt a n (Suc i) messages1 w1 of
                            (fin, its, messages2, w2) \<Rightarrow> (fin, it # its, messages2, w2)))
                  else (NoCalls (h_content handler), [it], messages, w)))"

definition placeholder :: string where
  "placeholder = ''I'' @ squote @ ''ve completed processing but have no response to give.''"

record 'w Processed =
  reply :: "error + OutboundMessage"
  manager :: Manager
  iterations :: "Iteration list"
  world :: 'w

text \<open>
  \<open>ProcessMessage\<close>, with the two clock readings of the appends as arguments.
  The loop runs \<open>MaxIterations\<close> times at most (not at all when the field is not
  positive).  The result of \<open>Save\<close> is dropped, as in the source.
\<close>

definition ProcessMessage ::
  "agent_runtime \<Rightarrow> 'w AgentLoop \<Rightarrow> Manager \<Rightarrow> InboundMessage \<Rightarrow> nat \<Rightarrow> nat \<Rightarrow> 'w \<Rightarrow> 'w Processed" where
  "ProcessMessage rt a mgr msg t_user t_assistant w =
     (case GetOrCreate mgr (in_SessionKey msg) of
        (sess, mgr1) \<Rightarrow>
          (let history = convertSessionMessages (GetHistory sess);
               messages = BuildMessages rt history (in_Content msg) (in_Media msg)
                            (in_Channel msg) (in_ChatID msg)
           in case agent_loop rt a (nat (MaxIterations a)) 0 messages w of
                (fin, its, messages1, w1) \<Rightarrow>
                  (case fin of
                     StreamError e \<Rightarrow>
                       \<lparr>reply = Inl (Err (''LLM stream error: '' @ e)), manager = mgr1,
                        iterations = its, world = w1\<rparr>
                   | _ \<Rightarrow>
                       (let finalContent0 = (case fin of NoCalls c \<Rightarrow> c | _ \<Rightarrow> []);
                            finalContent = (if finalContent0 = [] then placeholder
                                            else finalContent0);
                            sess1 = AddMessage sess ''user'' (in_Content msg) t_user;
                            sess2 = AddMessage sess1 ''assistant'' finalContent t_assistant;
                            mgr2 = mgr1\<lparr>sessions := (sessions mgr1)(in_SessionKey msg \<mapsto> sess2)\<rparr>
                        in \<lparr>reply = Inr (NewOutboundMessage (in_Channel msg) (in_ChatID msg)
                                            finalContent),
                            manager = snd (Save mgr2 sess2),
                            iterations = its, world = w1\<rparr>))))"

text \<open>The session after the two appends of the successful path.\<close>

definition with_turns :: "Session \<Rightarrow> InboundMessage \<Rightarrow> string \<Rightarrow> nat \<Rightarrow> nat \<Rightarrow> Session" where
  "with_turns sess msg final t_user t_assistant =
     AddMessage (AddMessage sess ''user'' (in_Content msg) t_user) ''assistant'' final t_assistant"

text \<open>Concrete pieces for the runs below.\<close>

definition plain_runtime :: agent_runtime where
  "plain_runtime =
     \<lparr>rt_lib = plain_lib, Unmarshal = (\<lambda>s. None), buildSystemPrompt = (\<lambda>c i m. ''You are nanobot.'')\<rparr>"

definition empty_manager :: Manager where
  "empty_manager =
     \<lparr>sessions = Map.empty, disk = Map.empty, getSessionFilePath = (\<lambda>k. k @ ''.json''),
      writable = True\<rparr>"

definition hello :: InboundMessage where
  "hello = NewInboundMessage ''web'' ''user'' ''c1'' ''hello''"

definition hi_provider :: "nat \<Rightarrow> Message list \<Rightarrow> StreamEvent list \<times> string option" where
  "hi_provider i messages = ([OnContent ''hi'', OnComplete], None)"

definition calling_provider :: "nat \<Rightarrow> Message list \<Rightarrow> StreamEvent list \<times> string option" where
  "calling_provider i messages =
     ([OnContent ''partial answer'', OnToolCallStart ''A'' ''f'', OnToolCallDelta ''A'' ''{}'',
       OnToolCallEnd ''A'', OnComplete], None)"


definition loop_with ::
  "(nat \<Rightarrow> Message list \<Rightarrow> StreamEvent list \<times> string option) \<Rightarrow> int \<Rightarrow> unit AgentLoop" where
  "loop_with provider cap = fst (NewAgentLoop provider ''/ws'' ''gpt-4'' cap False NewRegistry [])"

text \<open>
  The manager after the successful path of \<open>ProcessMessage\<close> with the final
  reply \<open>final\<close>: the two appends on the session of the message, then \<open>Save\<close>.
\<close>

definition persisted :: "Manager \<Rightarrow> InboundMessage \<Rightarrow> string \<Rightarrow> nat \<Rightarrow> nat \<Rightarrow> Manager" where
  "persisted mgr msg final t_user t_assistant =
     (case GetOrCreate mgr (in_SessionKey msg) of
        (sess, mgr1) \<Rightarrow>
          snd (Save (mgr1\<lparr>sessions := (sessions mgr1)
                             (in_SessionKey msg \<mapsto> with_turns sess msg final t_user t_assistant)\<rparr>)
                 (with_turns sess msg final t_user t_assistant)))"

chapter \<open>Properties\<close>

section \<open>Properties of the session store\<close>

lemma Messages_AddMessage:
  "Messages (AddMessage s r c t) =
     drop (length (Messages s) + 1 - 50)
       (Messages s @ [\<lparr>Role = r, Content = c, Timestamp = t\<rparr>])"
  by (simp add: AddMessage_def Let_def)

lemma Key_AddMessage: "Key (AddMessage s r c t) = Key s"
  by (simp add: AddMessage_def Let_def)

lemma drop_window_snoc:
  "drop (length (drop (length ys - 50) ys) + 1 - 50) (drop (length ys - 50) ys @ [x])
     = drop (length (ys @ [x]) - 50) (ys @ [x])"
proof (cases "length ys < 50")
  case True
  then show ?thesis by simp
next
  case False
  then have len: "length (drop (length ys - 50) ys) = 50" by simp
  have "drop (length (drop (length ys - 50) ys) + 1 - 50) (drop (length ys - 50) ys @ [x])
        = drop 1 (drop (length ys - 50) ys @ [x])"
    by (simp only: len) simp
  also have "\<dots> = drop 1 (drop (length ys - 50) ys) @ [x]"
    using len by simp
  also have "\<dots> = drop (length ys - 49) ys @ [x]"
  proof -
    have "Suc (length ys - 50) = length ys - 49" using False by arith
    then show ?thesis by simp
  qed
  also have "\<dots> = drop (length (ys @ [x]) - 50) (ys @ [x])"
    using False by simp
  finally show ?thesis .
qed

lemma Messages_AddMessages_window:
  "length (Messages s) \<le> 50 \<Longrightarrow>
   Messages (AddMessages s xs) =
     drop (length (Messages s @ map turn_of xs) - 50) (Messages s @ map turn_of xs)"
proof (induction xs rule: rev_induct)
  case Nil
  then show ?case by (simp add: AddMessages_def)
next
  case (snoc x xs)
  obtain r c t where x: "x = (r, c, t)" by (cases x) auto
  let ?all = "Messages s @ map turn_of xs"
  have step: "AddMessages s (xs @ [x]) = AddMessage (AddMessages s xs) r c t"
    by (simp add: AddMessages_def x)
  have prev: "Messages (AddMessages s xs) = drop (length ?all - 50) ?all"
    using snoc by simp
  have "Messages (AddMessages s (xs @ [x])) =
          drop (length (drop (length ?all - 50) ?all) + 1 - 50)
            (drop (length ?all - 50) ?all @ [turn_of x])"
    by (simp only: step Messages_AddMessage prev) (simp add: turn_of_def x)
  also have "\<dots> = drop (length (?all @ [turn_of x]) - 50) (?all @ [turn_of x])"
    by (rule drop_window_snoc)
  finally show ?case by simp
qed

text \<open>
  C2.  Starting from a freshly created session, after the appends \<open>xs\<close> (so
  \<open>n = length xs\<close> calls of \<open>AddMessage\<close>) the stored list is exactly the last
  50 appended turns in their order, and its length is \<open>min n 50\<close>; the turns
  dropped are the oldest ones.  Whatever the session held before, one append
  leaves at most 50 turns.
\<close>

theorem C2_session_tail_window:
  "Messages (AddMessages (new_Session k) xs) = drop (length xs - 50) (map turn_of xs)
   \<and> length (Messages (AddMessages (new_Session k) xs)) = min (length xs) 50
   \<and> Key (AddMessages (new_Session k) xs) = k
   \<and> length (Messages (AddMessage s r c t)) \<le> 50"
proof -
  have m: "Messages (AddMessages (new_Session k) xs) = drop (length xs - 50) (map turn_of xs)"
    using Messages_AddMessages_window [of "new_Session k" xs] by (simp add: new_Session_def)
  have key: "Key (AddMessages s' xs) = Key s'" for s'
    by (induction xs rule: rev_induct) (auto simp: AddMessages_def Key_AddMessage split: prod.splits)
  have bound: "length (Messages (AddMessage s r c t)) \<le> 50"
    by (simp add: Messages_AddMessage)
  show ?thesis using m key [of "new_Session k"] bound by (auto simp: new_Session_def)
qed

section \<open>Properties of the credential lookup\<close>

lemma match_keyword_none:
  "\<forall>kw \<in> set (map fst ps). \<not> Contains model kw \<Longrightarrow> match_keyword model ps = None"
  by (induction ps) auto

lemma first_key_find:
  "first_key ps = (case find (\<lambda>p. APIKey p \<noteq> []) ps of Some p \<Rightarrow> APIKey p | None \<Rightarrow> [])"
  by (induction ps) auto

lemma keyword_providers_keys: "map fst (keyword_providers c) = provider_keywords"
  by (simp add: keyword_providers_def provider_keywords_def)

text \<open>
  C9, the claim as stated fails: the empty model name contains none of the
  keywords, yet it stands for the default model \<open>gpt-4\<close>, whose keyword selects
  the OpenAI key although OpenRouter, first in the fallback order, has a key.
\<close>

theorem C9_empty_model_counterexample:
  "GetAPIKey ascii_lower example_config [] = ''oa-key''
   \<and> filter (Contains (ascii_lower [])) provider_keywords = []
   \<and> first_key (fallback_providers example_config) = ''or-key''"
  by (simp add: GetAPIKey_def example_config_def keyword_providers_def fallback_providers_def
      key_only_def ascii_lower_def lower_char_def provider_keywords_def HasPrefix_def)

text \<open>
  C9, amended.  When the model name that is searched (the default model for an
  empty name, lower-cased) contains none of the provider keywords, the result is
  the key of the first provider with a non-empty key in the order openrouter,
  deepseek, anthropic, openai, gemini, moonshot, vllm, groq, and the empty
  string when all keys are empty.
\<close>

theorem C9_fallback_order:
  assumes "\<forall>kw \<in> set provider_keywords. \<not> Contains (effective_model ToLower c model) kw"
  shows "GetAPIKey ToLower c model =
           (case find (\<lambda>p. APIKey p \<noteq> [])
                   [OpenRouter (Providers c), DeepSeek (Providers c), Anthropic (Providers c),
                    OpenAI (Providers c), Gemini (Providers c), Moonshot (Providers c),
                    VLLM (Providers c), Groq (Providers c)] of
              Some p \<Rightarrow> APIKey p
            | None \<Rightarrow> [])"
proof -
  have "match_keyword (effective_model ToLower c model) (keyword_providers c) = None"
    using assms by (intro match_keyword_none) (simp only: keyword_providers_keys)
  then have "GetAPIKey ToLower c model = first_key (fallback_providers c)"
    by (simp add: GetAPIKey_def effective_model_def Let_def)
  then show ?thesis
    by (simp only: first_key_find fallback_providers_def)
qed

theorem C9_fallback_order_witness:
  "GetAPIKey ascii_lower example_config ''llama-3'' = ''or-key''"
proof -
  have h: "\<forall>kw \<in> set provider_keywords.
             \<not> Contains (effective_model ascii_lower example_config ''llama-3'') kw"
    by (simp add: provider_keywords_def effective_model_def ascii_lower_def lower_char_def
        HasPrefix_def)
  show ?thesis
    using C9_fallback_order [OF h]
    by (simp add: example_config_def key_only_def)
qed

section \<open>Properties of the streaming client\<close>

lemma map_of_put_builder:
  "map_of (put_builder bs idx b) = (map_of bs)(idx \<mapsto> b)"
  by (induction bs idx b rule: put_builder.induct) (auto simp: fun_eq_iff)

lemma keys_put_builder:
  "set (map fst (put_builder bs idx b)) = insert idx (set (map fst bs))"
  by (induction bs idx b rule: put_builder.induct) auto

lemma distinct_put_builder:
  "distinct (map fst bs) \<Longrightarrow> distinct (map fst (put_builder bs idx b))"
proof (induction bs idx b rule: put_builder.induct)
  case (1 idx b)
  then show ?case by simp
next
  case (2 i b' bs idx b)
  then show ?case
    using keys_put_builder [of bs idx b] by auto
qed

lemma tool_call_step_events:
  "tool_call_step bs tc = (bs', evs) \<Longrightarrow> list_all start_known evs \<and> list_all not_end evs"
  by (auto simp: tool_call_step_def Let_def start_known_def not_end_def split: if_splits)

lemma tool_calls_loop_events:
  "tool_calls_loop bs tcs = (bs', evs) \<Longrightarrow> list_all start_known evs \<and> list_all not_end evs"
proof (induction tcs arbitrary: bs bs' evs)
  case Nil
  then show ?case by simp
next
  case (Cons tc tcs)
  obtain bs1 evs1 where s: "tool_call_step bs tc = (bs1, evs1)" by (cases "tool_call_step bs tc")
  obtain bs2 evs2 where l: "tool_calls_loop bs1 tcs = (bs2, evs2)"
    by (cases "tool_calls_loop bs1 tcs")
  from Cons.prems s l have "evs = evs1 @ evs2" by simp
  with tool_call_step_events [OF s] Cons.IH [OF l] show ?case by simp
qed

lemma chunk_step_events:
  "chunk_step bs cs = (bs', evs) \<Longrightarrow> list_all start_known evs \<and> list_all not_end evs"
proof (cases cs)
  case Nil
  assume "chunk_step bs cs = (bs', evs)"
  with Nil show ?thesis by (simp add: chunk_step_def)
next
  case (Cons choice rest)
  assume a: "chunk_step bs cs = (bs', evs)"
  obtain bs1 evs1 where l: "tool_calls_loop bs (Delta_ToolCalls choice) = (bs1, evs1)"
    by (cases "tool_calls_loop bs (Delta_ToolCalls choice)")
  from a Cons l have
    "evs = (if Delta_Content choice \<noteq> [] then [OnContent (Delta_Content choice)] else []) @ evs1"
    by (simp add: chunk_step_def)
  with tool_calls_loop_events [OF l] show ?thesis
    by (simp add: start_known_def not_end_def)
qed

lemma scan_lines_events:
  "scan_lines bs ls = (evs, fin, bs') \<Longrightarrow> list_all start_known evs \<and> list_all not_end evs"
proof (induction bs ls arbitrary: evs fin bs' rule: scan_lines.induct)
  case (6 bs cs ls)
  obtain bs1 evs1 where c: "chunk_step bs cs = (bs1, evs1)" by (cases "chunk_step bs cs")
  obtain evs2 fin2 bs2 where r: "scan_lines bs1 ls = (evs2, fin2, bs2)"
    by (cases "scan_lines bs1 ls")
  from "6.prems" c r have "evs = evs1 @ evs2" by simp
  with chunk_step_events [OF c] "6.IH" [OF c [symmetric] r] show ?case by simp
qed simp_all

lemma end_events_start_known: "list_all start_known (end_events bs)"
  by (induction bs rule: end_events.induct) (auto simp: start_known_def)

lemma end_events_builder:
  "OnToolCallEnd i \<in> set (end_events bs) \<Longrightarrow>
     \<exists>b \<in> snd ` set bs. bID b = i \<and> bArguments b \<noteq> []"
  by (induction bs rule: end_events.induct) (auto split: if_splits)

lemma ChatStream_start_known: "list_all start_known (fst (ChatStream src))"
proof (cases src)
  case (RequestFailed e)
  then show ?thesis by (simp add: ChatStream_def start_known_def)
next
  case (Stream ls read_err)
  obtain evs fin bs where s: "scan_lines [] ls = (evs, fin, bs)" by (cases "scan_lines [] ls")
  from scan_lines_events [OF s] have "list_all start_known evs" by simp
  with Stream s end_events_start_known [of bs] show ?thesis
    by (cases fin; cases read_err) (simp_all add: ChatStream_def start_known_def)
qed

lemma ChatStream_end_from_builders:
  assumes "OnToolCallEnd i \<in> set (fst (ChatStream (Stream ls read_err)))"
  shows "OnToolCallEnd i \<in> set (end_events (stream_builders ls))"
proof -
  obtain evs fin bs where s: "scan_lines [] ls = (evs, fin, bs)" by (cases "scan_lines [] ls")
  from scan_lines_events [OF s] have "list_all not_end evs" by simp
  then have no: "OnToolCallEnd i \<notin> set evs"
    by (auto simp: list_all_iff not_end_def)
  from assms s no show ?thesis
    by (cases fin; cases read_err) (auto simp: ChatStream_def stream_builders_def)
qed

lemma tool_call_step_args:
  "tool_call_step bs tc = (bs', evs) \<Longrightarrow>
     args_of bs' idx = args_of bs idx @ (if Index tc = idx then Function_Arguments tc else [])"
  by (auto simp: tool_call_step_def Let_def args_of_def map_of_put_builder new_builder_def
      split: option.splits)

lemma tool_calls_loop_args:
  "tool_calls_loop bs tcs = (bs', evs) \<Longrightarrow>
     args_of bs' idx =
       args_of bs idx @ concat (map Function_Arguments (filter (\<lambda>tc. Index tc = idx) tcs))"
proof (induction tcs arbitrary: bs bs' evs)
  case Nil
  then show ?case by simp
next
  case (Cons tc tcs)
  obtain bs1 evs1 where s: "tool_call_step bs tc = (bs1, evs1)" by (cases "tool_call_step bs tc")
  obtain bs2 evs2 where l: "tool_calls_loop bs1 tcs = (bs2, evs2)"
    by (cases "tool_calls_loop bs1 tcs")
  from Cons.prems s l have "bs' = bs2" by simp
  with tool_call_step_args [OF s, of idx] Cons.IH [OF l] show ?case by simp
qed

lemma scan_lines_args:
  "scan_lines bs ls = (evs, fin, bs') \<Longrightarrow>
     args_of bs' idx =
       args_of bs idx
       @ concat (map Function_Arguments (filter (\<lambda>tc. Index tc = idx) (seen_deltas ls)))"
proof (induction bs ls arbitrary: evs fin bs' rule: scan_lines.induct)
  case (6 bs cs ls)
  obtain bs1 evs1 where c: "chunk_step bs cs = (bs1, evs1)" by (cases "chunk_step bs cs")
  obtain evs2 fin2 bs2 where r: "scan_lines bs1 ls = (evs2, fin2, bs2)"
    by (cases "scan_lines bs1 ls")
  from "6.prems" c r have eq: "bs' = bs2" by simp
  have first: "args_of bs1 idx =
      args_of bs idx
      @ concat (map Function_Arguments
          (filter (\<lambda>tc. Index tc = idx) (case cs of [] \<Rightarrow> [] | choice # _ \<Rightarrow> Delta_ToolCalls choice)))"
  proof (cases cs)
    case Nil
    with c show ?thesis by (simp add: chunk_step_def)
  next
    case (Cons choice rest)
    obtain bs3 evs3 where l: "tool_calls_loop bs (Delta_ToolCalls choice) = (bs3, evs3)"
      by (cases "tool_calls_loop bs (Delta_ToolCalls choice)")
    from c Cons l have "bs1 = bs3" by (simp add: chunk_step_def)
    with tool_calls_loop_args [OF l, of idx] Cons show ?thesis by simp
  qed
  from "6.IH" [OF c [symmetric] r] first eq show ?case by simp
qed simp_all

text \<open>
  C1.  On the scenario stream the handler receives exactly one
  \<open>OnToolCallStart("A","f")\<close>, the two argument fragments as
  \<open>OnToolCallDelta("A", _)\<close>, one \<open>OnToolCallEnd("A")\<close> and \<open>OnComplete\<close>.
  In every run, a Start event carries an id and a name that are both known
  (not empty); an End event belongs to a builder whose accumulated arguments are
  not empty; and the arguments accumulated under an index are the concatenation
  of the fragments that the processed entries with that index carry.
\<close>

theorem C1_tool_call_reconstruction:
  \<open>ChatStream (Stream scenario_lines None) =
      ([OnToolCallStart ''A'' ''f'', OnToolCallDelta ''A'' ''{"x":'',
        OnToolCallDelta ''A'' ''1}'', OnToolCallEnd ''A'', OnComplete], None)
   \<and> ''{"x":'' @ ''1}'' = ''{"x":1}''
   \<and> (OnToolCallStart sid sname \<in> set (fst (ChatStream src)) \<longrightarrow> sid \<noteq> [] \<and> sname \<noteq> [])
   \<and> (OnToolCallEnd eid \<in> set (fst (ChatStream (Stream ls read_err))) \<longrightarrow>
        (\<exists>b \<in> snd ` set (stream_builders ls). bID b = eid \<and> bArguments b \<noteq> []))
   \<and> args_of (stream_builders ls) idx =
        concat (map Function_Arguments (filter (\<lambda>tc. Index tc = idx) (seen_deltas ls)))\<close>
proof (intro conjI impI)
  show \<open>ChatStream (Stream scenario_lines None) =
      ([OnToolCallStart ''A'' ''f'', OnToolCallDelta ''A'' ''{"x":'',
        OnToolCallDelta ''A'' ''1}'', OnToolCallEnd ''A'', OnComplete], None)\<close>
    by (simp add: ChatStream_def scenario_lines_def tool_delta_def chunk_step_def
        tool_call_step_def new_builder_def Let_def)
  show \<open>''{"x":'' @ ''1}'' = ''{"x":1}''\<close> by simp
next
  assume "OnToolCallStart sid sname \<in> set (fst (ChatStream src))"
  with ChatStream_start_known [of src] have "start_known (OnToolCallStart sid sname)"
    by (simp add: list_all_iff)
  then show "sid \<noteq> []" and "sname \<noteq> []" by (simp_all add: start_known_def)
next
  assume "OnToolCallEnd eid \<in> set (fst (ChatStream (Stream ls read_err)))"
  then have "OnToolCallEnd eid \<in> set (end_events (stream_builders ls))"
    by (rule ChatStream_end_from_builders)
  then show "\<exists>b \<in> snd ` set (stream_builders ls). bID b = eid \<and> bArguments b \<noteq> []"
    by (rule end_events_builder)
next
  obtain evs fin bs where s: "scan_lines [] ls = (evs, fin, bs)" by (cases "scan_lines [] ls")
  from scan_lines_args [OF s, of idx] s
  show "args_of (stream_builders ls) idx =
        concat (map Function_Arguments (filter (\<lambda>tc. Index tc = idx) (seen_deltas ls)))"
    by (simp add: stream_builders_def args_of_def)
qed

theorem C1_tool_call_reconstruction_witness:
  "OnToolCallStart ''A'' ''f'' \<in> set (fst (ChatStream (Stream scenario_lines None)))
   \<and> OnToolCallEnd ''A'' \<in> set (fst (ChatStream (Stream scenario_lines None)))
   \<and> (\<exists>b \<in> snd ` set (stream_builders scenario_lines). bID b = ''A'' \<and> bArguments b \<noteq> [])"
proof -
  note c1 = C1_tool_call_reconstruction
    [where sid = "''A''" and sname = "''f''" and src = "Stream scenario_lines None"
       and eid = "''A''" and ls = scenario_lines and read_err = None and idx = 0]
  from c1 have run: "fst (ChatStream (Stream scenario_lines None)) =
      [OnToolCallStart ''A'' ''f'', OnToolCallDelta ''A'' (CHR ''{'' # CHR 0x22 # ''x'' @ [CHR 0x22, CHR '':'']),
       OnToolCallDelta ''A'' ''1}'', OnToolCallEnd ''A'', OnComplete]"
    by simp
  have s: "OnToolCallStart ''A'' ''f'' \<in> set (fst (ChatStream (Stream scenario_lines None)))"
    by (simp only: run) simp
  have e: "OnToolCallEnd ''A'' \<in> set (fst (ChatStream (Stream scenario_lines None)))"
    by (simp only: run) simp
  from c1 e have "\<exists>b \<in> snd ` set (stream_builders scenario_lines). bID b = ''A'' \<and> bArguments b \<noteq> []"
    by blast
  with s e show ?thesis by blast
qed

section \<open>Properties of the registry\<close>

lemma Register_counting_tool:
  "Register NewRegistry (Some counting_tool) = Inr counting_registry"
  by (simp add: Register_def NewRegistry_def counting_tool_def counting_registry_def)

lemma required_strings_find:
  "required_strings rs params =
     (case find (\<lambda>k. map_of params k = None) rs of
        Some k \<Rightarrow> Some (''missing required parameter: '' @ k)
      | None \<Rightarrow> None)"
  by (induction rs) auto

lemma ValidateParams_missing:
  assumes "as_string (map_of schema ''type'') = ''object''"
    and "map_of schema ''required'' = Some (GStrings rs)"
    and "find (\<lambda>k. map_of params k = None) rs = Some k"
  shows "ValidateParams lib (Some schema) params = Some (''missing required parameter: '' @ k)"
  using assms by (simp add: check_required_def required_strings_find)

text \<open>
  The three branches of \<open>Registry.Execute\<close>, by the verdict of
  \<open>ValidateParams\<close>: an unknown name fails and leaves the world as it is; a
  verdict \<open>e\<close> is returned as the text \<open>Invalid parameters: e\<close> with the world
  untouched; without a verdict the result is the executor's.
\<close>

lemma Registry_Execute_dispatch:
  "(tools r name = None \<longrightarrow>
      Registry_Execute lib r name params w = (Inl (Err (''tool not found: '' @ name)), w))
   \<and> (tools r name = Some t \<and> ValidateParams lib (Parameters t) params = Some e \<longrightarrow>
      Registry_Execute lib r name params w = (Inr (''Invalid parameters: '' @ e), w))
   \<and> (tools r name = Some t \<and> ValidateParams lib (Parameters t) params = None \<longrightarrow>
      Registry_Execute lib r name params w = Execute t params w)
   \<and> (tools r name = Some t \<and> Parameters t = Some schema
        \<and> as_string (map_of schema ''type'') = ''object''
        \<and> map_of schema ''required'' = Some (GStrings rs)
        \<and> find (\<lambda>k. map_of params k = None) rs = Some k \<longrightarrow>
      Registry_Execute lib r name params w
        = (Inr (''Invalid parameters: missing required parameter: '' @ k), w))"
proof (intro conjI impI)
  assume "tools r name = None"
  then show "Registry_Execute lib r name params w = (Inl (Err (''tool not found: '' @ name)), w)"
    by (simp add: Registry_Execute_def Registry_Get_def)
next
  assume "tools r name = Some t \<and> ValidateParams lib (Parameters t) params = Some e"
  then show "Registry_Execute lib r name params w = (Inr (''Invalid parameters: '' @ e), w)"
    by (simp add: Registry_Execute_def Registry_Get_def)
next
  assume "tools r name = Some t \<and> ValidateParams lib (Parameters t) params = None"
  then show "Registry_Execute lib r name params w = Execute t params w"
    by (simp add: Registry_Execute_def Registry_Get_def)
next
  assume a: "tools r name = Some t \<and> Parameters t = Some schema
        \<and> as_string (map_of schema ''type'') = ''object''
        \<and> map_of schema ''required'' = Some (GStrings rs)
        \<and> find (\<lambda>k. map_of params k = None) rs = Some k"
  then have "ValidateParams lib (Parameters t) params
               = Some (''missing required parameter: '' @ k)"
    using ValidateParams_missing [of schema rs params k lib] by simp
  with a show "Registry_Execute lib r name params w
        = (Inr (''Invalid parameters: missing required parameter: '' @ k), w)"
    by (simp add: Registry_Execute_def Registry_Get_def)
qed

lemma Registry_Execute_runs:
  "Registry_Execute plain_lib counting_registry ''no_such'' [] 0
     = (Inl (Err ''tool not found: no_such''), 0)
   \<and> Registry_Execute plain_lib counting_registry ''read_file'' [(''limit'', GFloat 2)] 0
     = (Inr ''Invalid parameters: missing required parameter: path'', 0)
   \<and> Registry_Execute plain_lib counting_registry ''read_file'' [(''path'', GInt 7)] 0
     = (Inr ''Invalid parameters: path should be string'', 0)
   \<and> Registry_Execute plain_lib counting_registry ''read_file'' [(''path'', GString ''a.txt'')] 0
     = (Inr ''content'', 1)"
proof -
  have t: "tools counting_registry ''read_file'' = Some counting_tool"
    by (simp add: counting_registry_def)
  have n: "tools counting_registry ''no_such'' = None"
    by (simp add: counting_registry_def)
  have p: "Parameters counting_tool = Some read_file_parameters"
    by (simp add: counting_tool_def)
  have v1: "ValidateParams plain_lib (Parameters counting_tool) [(''limit'', GFloat 2)]
              = Some ''missing required parameter: path''"
    by (simp add: p read_file_parameters_def as_string_def check_required_def)
  have v2: "ValidateParams plain_lib (Parameters counting_tool) [(''path'', GInt 7)]
              = Some ''path should be string''"
    by (simp add: p read_file_parameters_def as_string_def check_required_def as_map_def
        property_schema_def validateValue.simps check_scalar_def)
  have v3: "ValidateParams plain_lib (Parameters counting_tool) [(''path'', GString ''a.txt'')]
              = None"
    by (simp add: p read_file_parameters_def as_string_def check_required_def as_map_def
        property_schema_def validateValue.simps check_scalar_def check_length_def as_float_def
        check_enum_def)
  have e: "Execute counting_tool [(''path'', GString ''a.txt'')] 0 = (Inr ''content'', 1)"
    by (simp add: counting_tool_def)
  note c7 = Registry_Execute_dispatch [where lib = plain_lib and r = counting_registry and w = "0::nat"]
  from c7 [where name = "''no_such''" and params = "[]"] n
  have r0: "Registry_Execute plain_lib counting_registry ''no_such'' [] 0
              = (Inl (Err ''tool not found: no_such''), 0)"
    by simp
  from c7 [where name = "''read_file''" and t = counting_tool
             and params = "[(''limit'', GFloat 2)]" and e = "''missing required parameter: path''"]
    t v1
  have r1: "Registry_Execute plain_lib counting_registry ''read_file'' [(''limit'', GFloat 2)] 0
              = (Inr ''Invalid parameters: missing required parameter: path'', 0)"
    by simp
  from c7 [where name = "''read_file''" and t = counting_tool
             and params = "[(''path'', GInt 7)]" and e = "''path should be string''"]
    t v2
  have r2: "Registry_Execute plain_lib counting_registry ''read_file'' [(''path'', GInt 7)] 0
              = (Inr ''Invalid parameters: path should be string'', 0)"
    by simp
  from c7 [where name = "''read_file''" and t = counting_tool
             and params = "[(''path'', GString ''a.txt'')]"]
    t v3 e
  have r3: "Registry_Execute plain_lib counting_registry ''read_file''
              [(''path'', GString ''a.txt'')] 0 = (Inr ''content'', 1)"
    by simp
  from r0 r1 r2 r3 show ?thesis by blast
qed

section \<open>Properties of the file tools\<close>

lemma split_on_nonempty: "split_on c s \<noteq> []"
  by (induction s) (auto split: list.splits)

lemma join_with_Cons:
  "ys \<noteq> [] \<Longrightarrow> join_with sep (x # ys) = x @ sep @ join_with sep ys"
  by (cases ys) auto

lemma join_split: "join_with [c] (split_on c s) = s"
proof (induction s)
  case Nil
  then show ?case by simp
next
  case (Cons x xs)
  obtain w ws where sp: "split_on c xs = w # ws"
    using split_on_nonempty [of c xs] by (cases "split_on c xs") auto
  show ?case
  proof (cases "x = c")
    case True
    then show ?thesis using Cons.IH by (simp add: join_with_Cons split_on_nonempty)
  next
    case False
    then show ?thesis using Cons.IH sp by (cases ws) auto
  qed
qed

lemmas path_eval =
  resolvePath_def isPathAllowed_def Abs_def IsAbs_def HasPrefix_def Clean_def clean_step_def
  Let_def ReadFile_def as_string_def int_param_def trunc_def NL_def

text \<open>
  C5, a run of the code.  With the sandbox root \<open>/ws\<close>, the absolute path
  \<open>/ws-evil/secret.txt\<close> does not lie beneath the root, yet the prefix test of
  \<open>isPathAllowed\<close> accepts it: \<open>read_file\<close> returns the content of the file
  and \<open>write_file\<close> writes outside the root.
\<close>

theorem C5_sibling_directory_escape:
  "\<not> lies_beneath ''/ws'' ''/ws-evil/secret.txt''
   \<and> Abs sibling_env ''/ws-evil/secret.txt'' = Inr ''/ws-evil/secret.txt''
   \<and> isPathAllowed sibling_env ''/ws'' ''/ws-evil/secret.txt'' = None
   \<and> ReadFileTool_Execute sibling_env ''/ws'' [(''path'', GString ''/ws-evil/secret.txt'')]
       = Inr ''s3cret''
   \<and> fst (WriteFileTool_Execute sibling_env ''/ws''
              [(''path'', GString ''/ws-evil/new.txt''), (''content'', GString ''x'')])
       = Inr ''File written successfully: /ws-evil/new.txt''
   \<and> files (snd (WriteFileTool_Execute sibling_env ''/ws''
              [(''path'', GString ''/ws-evil/new.txt''), (''content'', GString ''x'')]))
         ''/ws-evil/new.txt'' = Some ''x''"
proof (intro conjI)
  show "\<not> lies_beneath ''/ws'' ''/ws-evil/secret.txt''"
    by (simp add: lies_beneath_def components_def)
  show "Abs sibling_env ''/ws-evil/secret.txt'' = Inr ''/ws-evil/secret.txt''"
    by (simp add: path_eval sibling_env_def)
  show "isPathAllowed sibling_env ''/ws'' ''/ws-evil/secret.txt'' = None"
    by (simp add: path_eval sibling_env_def)
  show "ReadFileTool_Execute sibling_env ''/ws'' [(''path'', GString ''/ws-evil/secret.txt'')]
       = Inr ''s3cret''"
    by (simp add: ReadFileTool_Execute_def path_eval sibling_env_def)
  show "fst (WriteFileTool_Execute sibling_env ''/ws''
              [(''path'', GString ''/ws-evil/new.txt''), (''content'', GString ''x'')])
       = Inr ''File written successfully: /ws-evil/new.txt''"
    by (simp add: WriteFileTool_Execute_def path_eval sibling_env_def)
  show "files (snd (WriteFileTool_Execute sibling_env ''/ws''
              [(''path'', GString ''/ws-evil/new.txt''), (''content'', GString ''x'')]))
         ''/ws-evil/new.txt'' = Some ''x''"
    by (simp add: WriteFileTool_Execute_def path_eval sibling_env_def)
qed

text \<open>
  C6, the claim as stated fails: on the three-line file \<open>/ws/test.txt\<close> the
  offset 1 yields the content from the second line on, not from line 1.
\<close>

theorem C6_offset_counterexample:
  "ReadFileTool_Execute sibling_env ''/ws'' [(''path'', GString ''/ws/test.txt''), (''offset'', GInt 1)]
     = Inr (''line2'' @ [NL] @ ''line3'')"
  by (simp add: ReadFileTool_Execute_def path_eval sibling_env_def)

text \<open>
  C6, amended.  For a readable file, with \<open>lines\<close> the pieces of the content
  between newlines: the offset counts the lines to skip (it is 0-indexed), so an
  offset \<open>k > 0\<close> below the number of lines returns the content from line
  \<open>k + 1\<close> on; an offset \<open>k > 0\<close> that reaches or exceeds the number of lines
  fails; a limit \<open>l > 0\<close> returns at most \<open>l\<close> lines; and without offset and
  limit the whole content is returned.
\<close>

theorem C6_read_file_lines:
  assumes "as_string (map_of params ''path'') = path" and "path \<noteq> []"
    and "resolvePath env allowedDir path = Inr rp" and "files env rp = Some content"
    and "int_param params ''offset'' = k" and "int_param params ''limit'' = l"
  shows "(k \<le> 0 \<and> l \<le> 0 \<longrightarrow> ReadFileTool_Execute env allowedDir params = Inr content)
    \<and> (0 < k \<and> int (length (split_on NL content)) \<le> k \<longrightarrow>
          ReadFileTool_Execute env allowedDir params = Inl (Err ''offset exceeds file length''))
    \<and> (0 < k \<and> k < int (length (split_on NL content)) \<and> l \<le> 0 \<longrightarrow>
          ReadFileTool_Execute env allowedDir params
            = Inr (join_with [NL] (drop (nat k) (split_on NL content))))
    \<and> (0 < l \<and> k < int (length (split_on NL content)) \<longrightarrow>
          ReadFileTool_Execute env allowedDir params
            = Inr (join_with [NL] (take (nat l) (drop (nat k) (split_on NL content))))
          \<and> length (take (nat l) (drop (nat k) (split_on NL content))) \<le> nat l)"
proof -
  let ?lines = "split_on NL content"
  have run: "ReadFileTool_Execute env allowedDir params =
      (if k > 0 \<and> k \<ge> int (length ?lines) then Inl (Err ''offset exceeds file length'')
       else
         let lines1 = (if k > 0 then drop (nat k) ?lines else ?lines);
             lines2 = (if l > 0 \<and> l < int (length lines1) then take (nat l) lines1 else lines1)
         in Inr (join_with [NL] lines2))"
    using assms by (simp add: ReadFileTool_Execute_def ReadFile_def Let_def)
  have a: "k \<le> 0 \<and> l \<le> 0 \<longrightarrow> ReadFileTool_Execute env allowedDir params = Inr content"
    by (simp add: run join_split)
  have b: "0 < k \<and> int (length ?lines) \<le> k \<longrightarrow>
          ReadFileTool_Execute env allowedDir params = Inl (Err ''offset exceeds file length'')"
    by (simp add: run)
  have c: "0 < k \<and> k < int (length ?lines) \<and> l \<le> 0 \<longrightarrow>
          ReadFileTool_Execute env allowedDir params = Inr (join_with [NL] (drop (nat k) ?lines))"
    by (simp add: run)
  have d: "0 < l \<and> k < int (length ?lines) \<longrightarrow>
          ReadFileTool_Execute env allowedDir params
            = Inr (join_with [NL] (take (nat l) (drop (nat k) ?lines)))
          \<and> length (take (nat l) (drop (nat k) ?lines)) \<le> nat l"
  proof (intro impI conjI)
    assume h: "0 < l \<and> k < int (length ?lines)"
    have drop0: "k \<le> 0 \<Longrightarrow> drop (nat k) ?lines = ?lines" by simp
    have full: "\<not> l < int (length xs) \<Longrightarrow> take (nat l) xs = xs" for xs :: "string list"
      by simp
    show "ReadFileTool_Execute env allowedDir params
            = Inr (join_with [NL] (take (nat l) (drop (nat k) ?lines)))"
    proof (cases "k > 0")
      case True
      with h show ?thesis
        by (cases "l < int (length (drop (nat k) ?lines))") (simp_all add: run Let_def)
    next
      case False
      with h show ?thesis
        by (cases "l < int (length ?lines)") (simp_all add: run Let_def)
    qed
    show "length (take (nat l) (drop (nat k) ?lines)) \<le> nat l" by simp
  qed
  from a b c d show ?thesis by blast
qed

theorem C6_read_file_lines_witness:
  "ReadFileTool_Execute sibling_env ''/ws'' [(''path'', GString ''/ws/test.txt'')]
     = Inr (''line1'' @ [NL] @ ''line2'' @ [NL] @ ''line3'')
   \<and> ReadFileTool_Execute sibling_env ''/ws''
        [(''path'', GString ''/ws/test.txt''), (''offset'', GFloat 3)]
     = Inl (Err ''offset exceeds file length'')
   \<and> ReadFileTool_Execute sibling_env ''/ws''
        [(''path'', GString ''/ws/test.txt''), (''offset'', GFloat 2)]
     = Inr ''line3''
   \<and> ReadFileTool_Execute sibling_env ''/ws''
        [(''path'', GString ''/ws/test.txt''), (''limit'', GFloat 2)]
     = Inr (''line1'' @ [NL] @ ''line2'')"
proof -
  have rp: "resolvePath sibling_env ''/ws'' ''/ws/test.txt'' = Inr ''/ws/test.txt''"
    by (simp add: path_eval sibling_env_def)
  have f: "files sibling_env ''/ws/test.txt'' = Some (''line1'' @ [NL] @ ''line2'' @ [NL] @ ''line3'')"
    by (simp add: sibling_env_def)
  note c6 = C6_read_file_lines [where env = sibling_env and allowedDir = "''/ws''"
      and path = "''/ws/test.txt''" and rp = "''/ws/test.txt''"
      and content = "''line1'' @ [NL] @ ''line2'' @ [NL] @ ''line3''", OF _ _ rp f]
  have r1: "ReadFileTool_Execute sibling_env ''/ws'' [(''path'', GString ''/ws/test.txt'')]
     = Inr (''line1'' @ [NL] @ ''line2'' @ [NL] @ ''line3'')"
    using c6 [where params = "[(''path'', GString ''/ws/test.txt'')]" and k = 0 and l = 0]
    by (simp add: as_string_def int_param_def)
  have r2: "ReadFileTool_Execute sibling_env ''/ws''
        [(''path'', GString ''/ws/test.txt''), (''offset'', GFloat 3)]
     = Inl (Err ''offset exceeds file length'')"
    using c6 [where params = "[(''path'', GString ''/ws/test.txt''), (''offset'', GFloat 3)]"
        and k = 3 and l = 0]
    by (simp add: as_string_def int_param_def trunc_def NL_def)
  have r3: "ReadFileTool_Execute sibling_env ''/ws''
        [(''path'', GString ''/ws/test.txt''), (''offset'', GFloat 2)]
     = Inr ''line3''"
    using c6 [where params = "[(''path'', GString ''/ws/test.txt''), (''offset'', GFloat 2)]"
        and k = 2 and l = 0]
    by (simp add: as_string_def int_param_def trunc_def NL_def)
  have r4: "ReadFileTool_Execute sibling_env ''/ws''
        [(''path'', GString ''/ws/test.txt''), (''limit'', GFloat 2)]
     = Inr (''line1'' @ [NL] @ ''line2'')"
    using c6 [where params = "[(''path'', GString ''/ws/test.txt''), (''limit'', GFloat 2)]"
        and k = 0 and l = 2]
    by (simp add: as_string_def int_param_def trunc_def NL_def)
  from r1 r2 r3 r4 show ?thesis by blast
qed

lemmas validate_eval =
  as_string_def as_map_def as_float_def check_required_def property_schema_def
  validateValue.simps check_scalar_def check_range_def check_length_def check_enum_def
  trunc_def

text \<open>
  C7, a run of the code.  The schema of \<open>read_file\<close> bounds \<open>limit\<close> by the
  maximum 1000, written as an \<open>int\<close>; \<open>validateValue\<close> reads a bound only
  when it is a \<open>float64\<close>.  So the arguments with \<open>limit = 5000\<close>, which do not
  satisfy the schema, pass \<open>ValidateParams\<close>, and the dispatch runs the
  executor and returns the content of the file instead of a diagnostic.  With
  the same bound as a \<open>float64\<close> the same value is rejected.
\<close>

theorem C7_integer_bound_not_enforced:
  "map_of (as_map (map_of (as_map (map_of read_file_parameters ''properties'')) ''limit''))
       ''maximum'' = Some (GInt 1000)
   \<and> ValidateParams plain_lib (Parameters (NewReadFileTool ''/ws''))
         [(''path'', GString ''/ws/test.txt''), (''limit'', GFloat 5000)] = None
   \<and> Registry_Execute plain_lib (file_registry ''/ws'') ''read_file''
         [(''path'', GString ''/ws/test.txt''), (''limit'', GFloat 5000)] sibling_env
       = (Inr (''line1'' @ [NL] @ ''line2'' @ [NL] @ ''line3''), sibling_env)
   \<and> ValidateParams plain_lib (Some (limit_schema (GInt 1000))) [(''limit'', GFloat 5000)] = None
   \<and> ValidateParams decimal_lib (Some (limit_schema (GFloat 1000))) [(''limit'', GFloat 5000)]
       = Some ''limit must be <= 1000''"
proof (intro conjI)
  show "map_of (as_map (map_of (as_map (map_of read_file_parameters ''properties'')) ''limit''))
       ''maximum'' = Some (GInt 1000)"
    by (simp add: read_file_parameters_def as_map_def)
  show v: "ValidateParams plain_lib (Parameters (NewReadFileTool ''/ws''))
         [(''path'', GString ''/ws/test.txt''), (''limit'', GFloat 5000)] = None"
    by (simp add: NewReadFileTool_def read_file_parameters_def validate_eval)
  have e: "ReadFileTool_Execute sibling_env ''/ws''
         [(''path'', GString ''/ws/test.txt''), (''limit'', GFloat 5000)]
       = Inr (''line1'' @ [NL] @ ''line2'' @ [NL] @ ''line3'')"
    by (simp add: ReadFileTool_Execute_def path_eval sibling_env_def)
  show "Registry_Execute plain_lib (file_registry ''/ws'') ''read_file''
         [(''path'', GString ''/ws/test.txt''), (''limit'', GFloat 5000)] sibling_env
       = (Inr (''line1'' @ [NL] @ ''line2'' @ [NL] @ ''line3''), sibling_env)"
    by (simp only: Registry_Execute_def Registry_Get_def file_registry_def Registry.simps
          fun_upd_same option.case v)
       (simp add: NewReadFileTool_def e)
  show "ValidateParams plain_lib (Some (limit_schema (GInt 1000))) [(''limit'', GFloat 5000)] = None"
    by (simp add: limit_schema_def validate_eval)
  have d: "show_int 1000 = ''1000''"
    by code_simp
  show "ValidateParams decimal_lib (Some (limit_schema (GFloat 1000))) [(''limit'', GFloat 5000)]
       = Some ''limit must be <= 1000''"
    by (simp add: limit_schema_def validate_eval decimal_lib_def d)
qed

section \<open>Properties of the shell tool\<close>

lemma length_truncate_output:
  "length (truncate_output out) \<le> maxOutputSize + length truncation_marker"
  by (simp add: truncate_output_def)

lemma match_patterns_never:
  "(\<forall>p s. MatchString env p s = Some False) \<Longrightarrow> match_patterns env ps c = None"
  by (induction ps) auto

lemma ExecTool_Execute_shape:
  assumes "ExecTool_Execute env t params = Inr text"
  shows "text = status_line env (exec_timeout t params) (snd (exec_run env t params))
                @ truncate_output (fst (exec_run env t params))"
proof -
  obtain out st where r: "exec_run env t params = (out, st)"
    by (cases "exec_run env t params")
  from assms r show ?thesis
    by (auto simp: ExecTool_Execute_def exec_run_def Let_def
        split: if_splits option.splits sum.splits)
qed

lemma command_env_run:
  assumes "c \<noteq> []"
  shows "ExecTool_Execute (command_env out st) (NewExecTool ''/ws'' 0 False) [(''command'', GString c)]
           = Inr (status_line (command_env out st) 60 st @ truncate_output out)"
proof -
  have m: "match_patterns (command_env out st) ps x = None" for ps x
    by (rule match_patterns_never) (simp add: command_env_def)
  have r: "run (command_env out st) c ''/ws'' 60 = (out, st)"
    by (simp add: command_env_def)
  show ?thesis
    using assms
    by (simp add: ExecTool_Execute_def as_string_def isDangerousCommand_def m NewExecTool_def
        exec_timeout_def r)
qed

lemma read_file_whole:
  assumes "path \<noteq> []" and "resolvePath env allowedDir path = Inr rp"
    and "files env rp = Some content"
  shows "ReadFileTool_Execute env allowedDir [(''path'', GString path)] = Inr content"
  using assms
  by (simp add: ReadFileTool_Execute_def ReadFile_def as_string_def int_param_def Let_def
      join_split)

text \<open>
  C8, the claim as stated fails.  \<open>read_file\<close> on an empty file succeeds with
  the empty text; \<open>read_file\<close> on a file of 20000 bytes returns all of them,
  more than 10 KiB plus the marker; and \<open>exec\<close> of a command that prints 20000
  bytes and then fails returns the status line, 10 KiB of output and the marker,
  again more than 10 KiB plus the marker.
\<close>

theorem C8_tool_result_counterexample:
  "ReadFileTool_Execute sibling_env ''/ws'' [(''path'', GString ''/ws/empty.txt'')] = Inr []
   \<and> ReadFileTool_Execute big_env ''/ws'' [(''path'', GString ''/ws/big.txt'')]
       = Inr (replicate 20000 (CHR ''a''))
   \<and> 10 * 1024 + length truncation_marker < length (replicate 20000 (CHR ''a''))
   \<and> ExecTool_Execute (command_env (replicate 20000 (CHR ''y'')) (Failed ''exit status 1''))
         (NewExecTool ''/ws'' 0 False) [(''command'', GString ''yes'')]
       = Inr (''Command failed: exit status 1'' @ [NL] @ ''Output:'' @ [NL]
              @ replicate (10 * 1024) (CHR ''y'') @ truncation_marker)
   \<and> 10 * 1024 + length truncation_marker
       < length (''Command failed: exit status 1'' @ [NL] @ ''Output:'' @ [NL]
                 @ replicate (10 * 1024) (CHR ''y'') @ truncation_marker)"
proof (intro conjI)
  show "ReadFileTool_Execute sibling_env ''/ws'' [(''path'', GString ''/ws/empty.txt'')] = Inr []"
    by (simp add: ReadFileTool_Execute_def path_eval sibling_env_def)
  have rp: "resolvePath big_env ''/ws'' ''/ws/big.txt'' = Inr ''/ws/big.txt''"
    by (simp add: path_eval big_env_def)
  have f: "files big_env ''/ws/big.txt'' = Some (replicate 20000 (CHR ''a''))"
    by (simp add: big_env_def)
  show "ReadFileTool_Execute big_env ''/ws'' [(''path'', GString ''/ws/big.txt'')]
       = Inr (replicate 20000 (CHR ''a''))"
    by (rule read_file_whole [OF _ rp f]) simp
  show "10 * 1024 + length truncation_marker < length (replicate 20000 (CHR ''a''))"
    by (simp add: truncation_marker_def)
  have "ExecTool_Execute (command_env (replicate 20000 (CHR ''y'')) (Failed ''exit status 1''))
         (NewExecTool ''/ws'' 0 False) [(''command'', GString ''yes'')]
       = Inr (status_line (command_env (replicate 20000 (CHR ''y'')) (Failed ''exit status 1'')) 60
                (Failed ''exit status 1'')
              @ truncate_output (replicate 20000 (CHR ''y'')))"
    by (rule command_env_run) simp
  then show "ExecTool_Execute (command_env (replicate 20000 (CHR ''y'')) (Failed ''exit status 1''))
         (NewExecTool ''/ws'' 0 False) [(''command'', GString ''yes'')]
       = Inr (''Command failed: exit status 1'' @ [NL] @ ''Output:'' @ [NL]
              @ replicate (10 * 1024) (CHR ''y'') @ truncation_marker)"
    by (simp add: status_line_def truncate_output_def maxOutputSize_def)
  show "10 * 1024 + length truncation_marker
       < length (''Command failed: exit status 1'' @ [NL] @ ''Output:'' @ [NL]
                 @ replicate (10 * 1024) (CHR ''y'') @ truncation_marker)"
    by simp
qed

text \<open>
  C8, amended.  A successful result of \<open>exec\<close> is the status line followed by
  the output of the command.  The status line is empty when the command ended
  without error, \<open>Command failed: e\<close> and \<open>Output:\<close> when it failed with \<open>e\<close>,
  and \<open>Command timed out after d\<close> and \<open>Partial output:\<close> when the deadline
  passed.  The output is returned whole when it has at most 10 KiB, else its
  first 10 KiB followed by the overflow marker.  So the length of the text is at
  most that of the status line plus 10 KiB plus the marker, at most 10 KiB plus
  the marker when the command ended without error, and the text is empty when
  such a command printed nothing.  \<open>read_file\<close> without offset and limit
  returns the whole content of a readable file, whatever its length.
\<close>

theorem C8_exec_output_bound:
  "(ExecTool_Execute env t params = Inr res \<longrightarrow>
      res = status_line env (exec_timeout t params) (snd (exec_run env t params))
             @ truncate_output (fst (exec_run env t params))
      \<and> length res
          \<le> length (status_line env (exec_timeout t params) (snd (exec_run env t params)))
            + 10 * 1024 + length truncation_marker
      \<and> (snd (exec_run env t params) = Exited \<longrightarrow>
            res = truncate_output (fst (exec_run env t params))
            \<and> length res \<le> 10 * 1024 + length truncation_marker)
      \<and> (snd (exec_run env t params) = Exited \<and> fst (exec_run env t params) = [] \<longrightarrow>
            res = []))
   \<and> status_line env d Exited = []
   \<and> status_line env d (Failed e) = ''Command failed: '' @ e @ [NL] @ ''Output:'' @ [NL]
   \<and> status_line env d TimedOut
       = ''Command timed out after '' @ show_duration env d @ [NL] @ ''Partial output:'' @ [NL]
   \<and> (length out \<le> 10 * 1024 \<longrightarrow> truncate_output out = out)
   \<and> (10 * 1024 < length out \<longrightarrow>
         truncate_output out = take (10 * 1024) out @ truncation_marker)
   \<and> truncation_marker = [NL] @ ''... (output truncated)''
   \<and> (path \<noteq> [] \<and> resolvePath fs allowedDir path = Inr rp \<and> files fs rp = Some content \<longrightarrow>
         ReadFileTool_Execute fs allowedDir [(''path'', GString path)] = Inr content)"
proof -
  let ?st = "snd (exec_run env t params)"
  let ?out = "fst (exec_run env t params)"
  let ?line = "status_line env (exec_timeout t params) ?st"
  have shape: "res = ?line @ truncate_output ?out"
    if "ExecTool_Execute env t params = Inr res"
    using that by (rule ExecTool_Execute_shape)
  have cut: "length (truncate_output ?out) \<le> 10 * 1024 + length truncation_marker"
    using length_truncate_output [of ?out] by (simp add: maxOutputSize_def)
  have exec: "ExecTool_Execute env t params = Inr res \<longrightarrow>
      res = ?line @ truncate_output ?out
      \<and> length res \<le> length ?line + 10 * 1024 + length truncation_marker
      \<and> (?st = Exited \<longrightarrow>
            res = truncate_output ?out \<and> length res \<le> 10 * 1024 + length truncation_marker)
      \<and> (?st = Exited \<and> ?out = [] \<longrightarrow> res = [])"
  proof
    assume a: "ExecTool_Execute env t params = Inr res"
    note tx = shape [OF a]
    have b1: "length res \<le> length ?line + 10 * 1024 + length truncation_marker"
      using cut by (simp add: tx)
    have b2: "?st = Exited \<longrightarrow>
            res = truncate_output ?out \<and> length res \<le> 10 * 1024 + length truncation_marker"
      using cut tx by (simp add: status_line_def)
    have b3: "?st = Exited \<and> ?out = [] \<longrightarrow> res = []"
      using tx by (simp add: status_line_def truncate_output_def)
    from tx b1 b2 b3 show "res = ?line @ truncate_output ?out
      \<and> length res \<le> length ?line + 10 * 1024 + length truncation_marker
      \<and> (?st = Exited \<longrightarrow>
            res = truncate_output ?out \<and> length res \<le> 10 * 1024 + length truncation_marker)
      \<and> (?st = Exited \<and> ?out = [] \<longrightarrow> res = [])"
      by (intro conjI)
  qed
  have lines: "status_line env d Exited = []"
    "status_line env d (Failed e) = ''Command failed: '' @ e @ [NL] @ ''Output:'' @ [NL]"
    "status_line env d TimedOut
       = ''Command timed out after '' @ show_duration env d @ [NL] @ ''Partial output:'' @ [NL]"
    by (simp_all add: status_line_def)
  have t1: "length out \<le> 10 * 1024 \<longrightarrow> truncate_output out = out"
    by (simp add: truncate_output_def maxOutputSize_def)
  have t2: "10 * 1024 < length out \<longrightarrow>
         truncate_output out = take (10 * 1024) out @ truncation_marker"
    by (simp add: truncate_output_def maxOutputSize_def)
  have mk: "truncation_marker = [NL] @ ''... (output truncated)''"
    by (simp add: truncation_marker_def)
  have rd: "path \<noteq> [] \<and> resolvePath fs allowedDir path = Inr rp \<and> files fs rp = Some content \<longrightarrow>
         ReadFileTool_Execute fs allowedDir [(''path'', GString path)] = Inr content"
    using read_file_whole [of path fs allowedDir rp content] by blast
  from exec lines t1 t2 mk rd show ?thesis
    by (intro conjI)
qed

theorem C8_exec_output_bound_witness:
  "ExecTool_Execute yes_env (NewExecTool ''/ws'' 0 False) [(''command'', GString ''yes'')]
     = Inr (replicate 10240 (CHR ''y'') @ truncation_marker)
   \<and> length (replicate 10240 (CHR ''y'') @ truncation_marker) \<le> 10 * 1024 + length truncation_marker
   \<and> ExecTool_Execute (command_env [] Exited) (NewExecTool ''/ws'' 0 False)
        [(''command'', GString ''true'')] = Inr []
   \<and> ReadFileTool_Execute sibling_env ''/ws'' [(''path'', GString ''/ws/test.txt'')]
     = Inr (''line1'' @ [NL] @ ''line2'' @ [NL] @ ''line3'')"
proof -
  let ?tool = "NewExecTool ''/ws'' 0 False"
  have m: "match_patterns yes_env ps c = None" for ps c
    by (rule match_patterns_never) (simp add: yes_env_def)
  have run: "ExecTool_Execute yes_env ?tool [(''command'', GString ''yes'')]
     = Inr (replicate 10240 (CHR ''y'') @ truncation_marker)"
    by (simp add: ExecTool_Execute_def as_string_def isDangerousCommand_def m NewExecTool_def
        exec_timeout_def status_line_def truncate_output_def maxOutputSize_def)
       (simp add: yes_env_def maxOutputSize_def)
  have yr: "exec_run yes_env ?tool [(''command'', GString ''yes'')]
              = (replicate 20000 (CHR ''y''), Exited)"
    by (simp add: exec_run_def yes_env_def)
  note y = C8_exec_output_bound [where env = yes_env and t = ?tool
      and params = "[(''command'', GString ''yes'')]"
      and res = "replicate 10240 (CHR ''y'') @ truncation_marker",
      THEN conjunct1, rule_format, OF run]
  have ye: "snd (exec_run yes_env ?tool [(''command'', GString ''yes'')]) = Exited"
    by (simp only: yr snd_conv)
  have len: "length (replicate 10240 (CHR ''y'') @ truncation_marker)
               \<le> 10 * 1024 + length truncation_marker"
    by (rule y [THEN conjunct2, THEN conjunct2, THEN conjunct1, rule_format, OF ye,
          THEN conjunct2])
  obtain tx where quiet: "ExecTool_Execute (command_env [] Exited) ?tool
        [(''command'', GString ''true'')] = Inr tx"
    using command_env_run [of "''true''" "[]" Exited] by simp
  have qr: "exec_run (command_env [] Exited) ?tool [(''command'', GString ''true'')] = ([], Exited)"
    by (simp add: exec_run_def command_env_def)
  note q = C8_exec_output_bound [where env = "command_env [] Exited" and t = ?tool
      and params = "[(''command'', GString ''true'')]" and res = tx,
      THEN conjunct1, rule_format, OF quiet]
  have qe: "snd (exec_run (command_env [] Exited) ?tool [(''command'', GString ''true'')]) = Exited
      \<and> fst (exec_run (command_env [] Exited) ?tool [(''command'', GString ''true'')]) = []"
    by (simp only: qr snd_conv fst_conv simp_thms)
  have "tx = []"
    by (rule q [THEN conjunct2, THEN conjunct2, THEN conjunct2, rule_format, OF qe])
  with quiet have empty: "ExecTool_Execute (command_env [] Exited) ?tool
        [(''command'', GString ''true'')] = Inr []"
    by simp
  have rp: "resolvePath sibling_env ''/ws'' ''/ws/test.txt'' = Inr ''/ws/test.txt''"
    by (simp add: path_eval sibling_env_def)
  have f: "files sibling_env ''/ws/test.txt'' = Some (''line1'' @ [NL] @ ''line2'' @ [NL] @ ''line3'')"
    by (simp add: sibling_env_def)
  have pn: "''/ws/test.txt'' \<noteq> []" by simp
  note rdt = C8_exec_output_bound [where path = "''/ws/test.txt''" and fs = sibling_env
      and allowedDir = "''/ws''" and rp = "''/ws/test.txt''"
      and content = "''line1'' @ [NL] @ ''line2'' @ [NL] @ ''line3''",
      THEN conjunct2, THEN conjunct2, THEN conjunct2, THEN conjunct2, THEN conjunct2,
      THEN conjunct2, THEN conjunct2, rule_format]
  from rdt pn rp f
  have whole: "ReadFileTool_Execute sibling_env ''/ws'' [(''path'', GString ''/ws/test.txt'')]
     = Inr (''line1'' @ [NL] @ ''line2'' @ [NL] @ ''line3'')"
    by blast
  from run len empty whole show ?thesis by (intro conjI)
qed

section \<open>Properties of the agent loop\<close>

lemma agent_loop_length:
  "agent_loop rt a n i msgs w = (fin, its, m', w') \<Longrightarrow> length its \<le> n"
proof (induction n arbitrary: i msgs w fin its m' w')
  case 0
  then show ?case by simp
next
  case (Suc n)
  obtain evs err where p: "Provider a i msgs = (evs, err)" by (cases "Provider a i msgs")
  show ?case
  proof (cases err)
    case (Some e)
    with Suc.prems p show ?thesis by (auto simp: Let_def)
  next
    case None
    show ?thesis
    proof (cases "h_toolCalls (run_handler evs) = []")
      case True
      with Suc.prems p None show ?thesis by (auto simp: Let_def)
    next
      case False
      obtain m1 w1 where t: "run_tools rt a (h_toolCalls (run_handler evs))
          (AddAssistantMessage msgs (h_content (run_handler evs)) (h_toolCalls (run_handler evs))) w
          = (m1, w1)"
        by (cases "run_tools rt a (h_toolCalls (run_handler evs))
          (AddAssistantMessage msgs (h_content (run_handler evs)) (h_toolCalls (run_handler evs))) w")
      obtain fin2 its2 m2 w2 where r: "agent_loop rt a n (Suc i) m1 w1 = (fin2, its2, m2, w2)"
        by (cases "agent_loop rt a n (Suc i) m1 w1") auto
      from Suc.prems p None False t r have "its = \<lparr>it_error = None,
          it_content = h_content (run_handler evs),
          it_toolCalls = h_toolCalls (run_handler evs)\<rparr> # its2"
        by (simp add: Let_def)
      with Suc.IH [OF r] show ?thesis by simp
    qed
  qed
qed



lemma agent_loop_all_calls:
  "agent_loop rt a n i msgs w = (fin, its, m', w') \<Longrightarrow>
     \<forall>it \<in> set its. it_error it = None \<and> it_toolCalls it \<noteq> [] \<Longrightarrow>
     fin = CapHit \<and> length its = n"
proof (induction n arbitrary: i msgs w fin its m' w')
  case 0
  then show ?case by simp
next
  case (Suc n)
  obtain evs err where p: "Provider a i msgs = (evs, err)" by (cases "Provider a i msgs")
  show ?case
  proof (cases err)
    case (Some e')
    with Suc.prems p show ?thesis by (auto simp: Let_def)
  next
    case None
    show ?thesis
    proof (cases "h_toolCalls (run_handler evs) = []")
      case True
      with Suc.prems p None show ?thesis by (auto simp: Let_def)
    next
      case False
      obtain m1 w1 where t: "run_tools rt a (h_toolCalls (run_handler evs))
          (AddAssistantMessage msgs (h_content (run_handler evs)) (h_toolCalls (run_handler evs))) w
          = (m1, w1)"
        by (cases "run_tools rt a (h_toolCalls (run_handler evs))
          (AddAssistantMessage msgs (h_content (run_handler evs)) (h_toolCalls (run_handler evs))) w")
      obtain fin2 its2 m2 w2 where r: "agent_loop rt a n (Suc i) m1 w1 = (fin2, its2, m2, w2)"
        by (cases "agent_loop rt a n (Suc i) m1 w1") auto
      from Suc.prems(1) p None False t r have eq: "its = \<lparr>it_error = None,
          it_content = h_content (run_handler evs),
          it_toolCalls = h_toolCalls (run_handler evs)\<rparr> # its2" and f: "fin = fin2"
        by (simp_all add: Let_def)
      from Suc.prems(2) eq
      have "\<forall>it \<in> set its2. it_error it = None \<and> it_toolCalls it \<noteq> []" by auto
      with Suc.IH [OF r] f eq show ?thesis by simp
    qed
  qed
qed

lemma Messages_with_turns:
  "Messages (with_turns sess msg final t1 t2) =
     drop (length (Messages sess) + 2 - 50)
       (Messages sess @ [\<lparr>Role = ''user'', Content = in_Content msg, Timestamp = t1\<rparr>,
                         \<lparr>Role = ''assistant'', Content = final, Timestamp = t2\<rparr>])"
proof -
  let ?u = "\<lparr>Role = ''user'', Content = in_Content msg, Timestamp = t1\<rparr>"
  let ?a = "\<lparr>Role = ''assistant'', Content = final, Timestamp = t2\<rparr>"
  let ?ms = "Messages sess"
  have "Messages (with_turns sess msg final t1 t2) =
          drop (length (drop (length ?ms + 1 - 50) (?ms @ [?u])) + 1 - 50)
            (drop (length ?ms + 1 - 50) (?ms @ [?u]) @ [?a])"
    by (simp only: with_turns_def Messages_AddMessage)
  also have "\<dots> = drop (length (?ms @ [?u]) - 50 + (min (length ?ms + 1) 50 + 1 - 50))
                       ((?ms @ [?u]) @ [?a])"
    by (cases "length ?ms + 1 \<le> 50") (auto simp: min_def)
  also have "\<dots> = drop (length ?ms + 2 - 50) (?ms @ [?u, ?a])"
  proof -
    have "length (?ms @ [?u]) - 50 + (min (length ?ms + 1) 50 + 1 - 50) = length ?ms + 2 - 50"
      by (simp add: min_def) arith
    then show ?thesis by (simp only: append_assoc append_Cons append_Nil)
  qed
  finally show ?thesis .
qed

lemma GetOrCreate_disk: "disk (snd (GetOrCreate mgr key)) = disk mgr"
  by (simp add: GetOrCreate_def Let_def split: option.splits)


lemma Key_with_turns: "Key (with_turns sess msg final t1 t2) = Key sess"
  by (simp add: with_turns_def Key_AddMessage)

lemma persisted_session:
  "sessions (persisted mgr msg final t1 t2) (Key (fst (GetOrCreate mgr (in_SessionKey msg))))
     = Some (with_turns (fst (GetOrCreate mgr (in_SessionKey msg))) msg final t1 t2)"
  by (cases "GetOrCreate mgr (in_SessionKey msg)")
     (simp add: persisted_def Save_def saveToFile_def Key_with_turns)

lemma persisted_disk:
  "writable mgr \<Longrightarrow>
   disk (persisted mgr msg final t1 t2)
     (getSessionFilePath mgr (Key (fst (GetOrCreate mgr (in_SessionKey msg)))))
     = Some (with_turns (fst (GetOrCreate mgr (in_SessionKey msg))) msg final t1 t2)"
  by (cases "GetOrCreate mgr (in_SessionKey msg)")
     (auto simp: persisted_def Save_def saveToFile_def Key_with_turns GetOrCreate_def Let_def
        split: option.splits)

lemma Session_explicit: "(s::Session) = \<lparr>Key = Key s, Messages = Messages s\<rparr>"
  by simp

lemma with_turns_explicit:
  "with_turns sess msg final t1 t2 =
     \<lparr>Key = Key sess,
      Messages = drop (length (Messages sess) + 2 - 50)
        (Messages sess @ [\<lparr>Role = ''user'', Content = in_Content msg, Timestamp = t1\<rparr>,
                          \<lparr>Role = ''assistant'', Content = final, Timestamp = t2\<rparr>])\<rparr>"
  using Session_explicit [of "with_turns sess msg final t1 t2"]
  by (simp only: Key_with_turns Messages_with_turns)

lemma GetOrCreate_fields:
  "writable (snd (GetOrCreate mgr key)) = writable mgr"
  "getSessionFilePath (snd (GetOrCreate mgr key)) = getSessionFilePath mgr"
  by (simp_all add: GetOrCreate_def Let_def split: option.splits)

lemma persisted_sessions:
  "sessions (persisted mgr msg final t1 t2) =
     (sessions (snd (GetOrCreate mgr (in_SessionKey msg))))
       (in_SessionKey msg \<mapsto> with_turns (fst (GetOrCreate mgr (in_SessionKey msg))) msg final t1 t2,
        Key (fst (GetOrCreate mgr (in_SessionKey msg)))
          \<mapsto> with_turns (fst (GetOrCreate mgr (in_SessionKey msg))) msg final t1 t2)"
  by (cases "GetOrCreate mgr (in_SessionKey msg)")
     (simp add: persisted_def Save_def saveToFile_def Key_with_turns)

lemma persisted_disk_written:
  "writable mgr \<Longrightarrow>
   disk (persisted mgr msg final t1 t2) =
     (disk mgr)(getSessionFilePath mgr (Key (fst (GetOrCreate mgr (in_SessionKey msg))))
        \<mapsto> with_turns (fst (GetOrCreate mgr (in_SessionKey msg))) msg final t1 t2)"
  using GetOrCreate_fields [of mgr "in_SessionKey msg"] GetOrCreate_disk [of mgr "in_SessionKey msg"]
  by (cases "GetOrCreate mgr (in_SessionKey msg)")
     (simp add: persisted_def Save_def saveToFile_def Key_with_turns)

lemma persisted_disk_unwritable:
  "\<not> writable mgr \<Longrightarrow> disk (persisted mgr msg final t1 t2) = disk mgr"
  using GetOrCreate_fields [of mgr "in_SessionKey msg"] GetOrCreate_disk [of mgr "in_SessionKey msg"]
  by (cases "GetOrCreate mgr (in_SessionKey msg)")
     (simp add: persisted_def Save_def saveToFile_def Key_with_turns)

lemma persisted_observed:
  "sessions (persisted mgr msg final t1 t2) =
     (sessions (snd (GetOrCreate mgr (in_SessionKey msg))))
       (in_SessionKey msg \<mapsto> with_turns (fst (GetOrCreate mgr (in_SessionKey msg))) msg final t1 t2,
        Key (fst (GetOrCreate mgr (in_SessionKey msg)))
          \<mapsto> with_turns (fst (GetOrCreate mgr (in_SessionKey msg))) msg final t1 t2)
   \<and> (writable mgr \<longrightarrow>
        disk (persisted mgr msg final t1 t2) =
          (disk mgr)(getSessionFilePath mgr (Key (fst (GetOrCreate mgr (in_SessionKey msg))))
             \<mapsto> with_turns (fst (GetOrCreate mgr (in_SessionKey msg))) msg final t1 t2))
   \<and> (\<not> writable mgr \<longrightarrow> disk (persisted mgr msg final t1 t2) = disk mgr)"
  using persisted_sessions [of mgr msg final t1 t2] persisted_disk_written [of mgr msg final t1 t2]
    persisted_disk_unwritable [of mgr msg final t1 t2]
  by blast

lemma ProcessMessage_eq:
  assumes g: "GetOrCreate mgr (in_SessionKey msg) = (sess, mgr1)"
    and l: "agent_loop rt a (nat (MaxIterations a)) 0
             (BuildMessages rt (convertSessionMessages (GetHistory sess))
                (in_Content msg) (in_Media msg) (in_Channel msg) (in_ChatID msg)) w
           = (fin, its, m1, w1)"
  shows "ProcessMessage rt a mgr msg t1 t2 w =
     (case fin of
        StreamError e \<Rightarrow>
          \<lparr>reply = Inl (Err (''LLM stream error: '' @ e)), manager = mgr1,
           iterations = its, world = w1\<rparr>
      | NoCalls c \<Rightarrow>
          \<lparr>reply = Inr (NewOutboundMessage (in_Channel msg) (in_ChatID msg)
                          (if c = [] then placeholder else c)),
           manager = persisted mgr msg (if c = [] then placeholder else c) t1 t2,
           iterations = its, world = w1\<rparr>
      | CapHit \<Rightarrow>
          \<lparr>reply = Inr (NewOutboundMessage (in_Channel msg) (in_ChatID msg) placeholder),
           manager = persisted mgr msg placeholder t1 t2,
           iterations = its, world = w1\<rparr>)"
proof (cases fin)
  case (StreamError e)
  show ?thesis
    by (simp only: ProcessMessage_def g prod.case Let_def l StreamError loop_end.case)
next
  case (NoCalls c)
  show ?thesis
    by (simp only: ProcessMessage_def persisted_def with_turns_def g prod.case Let_def l NoCalls
        loop_end.case)
next
  case CapHit
  show ?thesis
    by (simp only: ProcessMessage_def persisted_def with_turns_def g prod.case Let_def l CapHit
        loop_end.case)
       (simp only: refl if_True)
qed

lemma ProcessMessage_run:
  assumes "agent_loop rt a (nat (MaxIterations a)) 0
             (BuildMessages rt
                (convertSessionMessages (GetHistory (fst (GetOrCreate mgr (in_SessionKey msg)))))
                (in_Content msg) (in_Media msg) (in_Channel msg) (in_ChatID msg)) w
           = (fin, its, m1, w1)"
  shows "ProcessMessage rt a mgr msg t1 t2 w =
     (case fin of
        StreamError e \<Rightarrow>
          \<lparr>reply = Inl (Err (''LLM stream error: '' @ e)),
           manager = snd (GetOrCreate mgr (in_SessionKey msg)),
           iterations = its, world = w1\<rparr>
      | NoCalls c \<Rightarrow>
          \<lparr>reply = Inr (NewOutboundMessage (in_Channel msg) (in_ChatID msg)
                          (if c = [] then placeholder else c)),
           manager = persisted mgr msg (if c = [] then placeholder else c) t1 t2,
           iterations = its, world = w1\<rparr>
      | CapHit \<Rightarrow>
          \<lparr>reply = Inr (NewOutboundMessage (in_Channel msg) (in_ChatID msg) placeholder),
           manager = persisted mgr msg placeholder t1 t2,
           iterations = its, world = w1\<rparr>)"
  by (rule ProcessMessage_eq [OF prod.collapse [symmetric] assms])

lemma placeholder_nonempty: "placeholder \<noteq> []"
  by (simp add: placeholder_def)

text \<open>
  C3, the claim as stated fails: a loop constructed with the cap 0 has the cap
  20, and a message whose first stream carries the text \<open>hi\<close> and no tool call
  is answered with \<open>hi\<close> after one call of the model.
\<close>

theorem C3_constructed_with_zero_counterexample:
  "MaxIterations (loop_with hi_provider 0) = 20
   \<and> reply (ProcessMessage plain_runtime (loop_with hi_provider 0) empty_manager hello 1 2 ())
       = Inr \<lparr>out_Channel = ''web'', out_ChatID = ''c1'', out_Content = ''hi''\<rparr>
   \<and> length (iterations
        (ProcessMessage plain_runtime (loop_with hi_provider 0) empty_manager hello 1 2 ())) = 1"
proof -
  have cap: "MaxIterations (loop_with hi_provider 0) = 20"
    by (simp add: loop_with_def NewAgentLoop_def)
  have p: "Provider (loop_with hi_provider 0) = hi_provider"
    by (simp add: loop_with_def NewAgentLoop_def)
  have l: "agent_loop plain_runtime (loop_with hi_provider 0) (nat (MaxIterations (loop_with hi_provider 0))) 0 ms ()
        = (NoCalls ''hi'', [\<lparr>it_error = None, it_content = ''hi'', it_toolCalls = []\<rparr>], ms, ())" for ms
    by (simp add: cap numeral_eq_Suc p hi_provider_def run_handler_def newStreamHandler_def)
  have "ProcessMessage plain_runtime (loop_with hi_provider 0) empty_manager hello 1 2 ()
      = \<lparr>reply = Inr (NewOutboundMessage (in_Channel hello) (in_ChatID hello) ''hi''),
         manager = persisted empty_manager hello ''hi'' 1 2,
         iterations = [\<lparr>it_error = None, it_content = ''hi'', it_toolCalls = []\<rparr>],
         world = ()\<rparr>"
    by (simp only: ProcessMessage_run [OF l] loop_end.case) simp
  then show ?thesis
    by (simp add: cap hello_def NewInboundMessage_def NewOutboundMessage_def)
qed

text \<open>
  C3, amended.  The constructor turns a cap that is not positive into 20.  When
  the field \<open>MaxIterations\<close> of the loop is itself 0 or less, processing a
  message calls the model not at all and leaves the world of the tools as it
  is; the reply is the placeholder, which is not empty; and the session of the
  message gets exactly the user turn and the placeholder turn appended (within
  the window of 50) and is saved, to its file when the disk can be written.
\<close>

theorem C3_zero_cap_placeholder:
  assumes "MaxIterations a \<le> 0"
  shows "MaxIterations (fst (NewAgentLoop provider workspace model cap restrict reg allowed))
           = (if cap \<le> 0 then 20 else cap)
    \<and> iterations (ProcessMessage rt a mgr msg t1 t2 w) = []
    \<and> world (ProcessMessage rt a mgr msg t1 t2 w) = w
    \<and> reply (ProcessMessage rt a mgr msg t1 t2 w)
        = Inr (NewOutboundMessage (in_Channel msg) (in_ChatID msg) placeholder)
    \<and> placeholder \<noteq> []
    \<and> manager (ProcessMessage rt a mgr msg t1 t2 w) = persisted mgr msg placeholder t1 t2
    \<and> sessions (manager (ProcessMessage rt a mgr msg t1 t2 w))
          (Key (fst (GetOrCreate mgr (in_SessionKey msg))))
        = Some (with_turns (fst (GetOrCreate mgr (in_SessionKey msg))) msg placeholder t1 t2)
    \<and> (writable mgr \<longrightarrow>
         disk (manager (ProcessMessage rt a mgr msg t1 t2 w))
           (getSessionFilePath mgr (Key (fst (GetOrCreate mgr (in_SessionKey msg)))))
         = Some (with_turns (fst (GetOrCreate mgr (in_SessionKey msg))) msg placeholder t1 t2))
    \<and> Messages (with_turns (fst (GetOrCreate mgr (in_SessionKey msg))) msg placeholder t1 t2)
        = drop (length (Messages (fst (GetOrCreate mgr (in_SessionKey msg)))) + 2 - 50)
            (Messages (fst (GetOrCreate mgr (in_SessionKey msg)))
             @ [\<lparr>Role = ''user'', Content = in_Content msg, Timestamp = t1\<rparr>,
                \<lparr>Role = ''assistant'', Content = placeholder, Timestamp = t2\<rparr>])"
proof -
  have l: "agent_loop rt a (nat (MaxIterations a)) 0 ms w = (CapHit, [], ms, w)" for ms
    using assms by simp
  have r: "ProcessMessage rt a mgr msg t1 t2 w
      = \<lparr>reply = Inr (NewOutboundMessage (in_Channel msg) (in_ChatID msg) placeholder),
         manager = persisted mgr msg placeholder t1 t2, iterations = [], world = w\<rparr>"
    by (simp only: ProcessMessage_run [OF l] loop_end.case)
  have c: "MaxIterations (fst (NewAgentLoop provider workspace model cap restrict reg allowed))
           = (if cap \<le> 0 then 20 else cap)"
    by (simp add: NewAgentLoop_def)
  show ?thesis
    by (simp only: r c) (simp add: placeholder_nonempty persisted_session persisted_disk
        Messages_with_turns)
qed

theorem C3_zero_cap_placeholder_witness:
  "iterations (ProcessMessage plain_runtime
       (loop_with hi_provider 5\<lparr>MaxIterations := 0\<rparr>) empty_manager hello 1 2 ()) = []
   \<and> reply (ProcessMessage plain_runtime
       (loop_with hi_provider 5\<lparr>MaxIterations := 0\<rparr>) empty_manager hello 1 2 ())
     = Inr \<lparr>out_Channel = ''web'', out_ChatID = ''c1'', out_Content = placeholder\<rparr>
   \<and> disk (manager (ProcessMessage plain_runtime
       (loop_with hi_provider 5\<lparr>MaxIterations := 0\<rparr>) empty_manager hello 1 2 ()))
       ''web:c1.json''
     = Some \<lparr>Key = ''web:c1'',
             Messages = [\<lparr>Role = ''user'', Content = ''hello'', Timestamp = 1\<rparr>,
                         \<lparr>Role = ''assistant'', Content = placeholder, Timestamp = 2\<rparr>]\<rparr>"
proof -
  let ?r = "ProcessMessage plain_runtime (loop_with hi_provider 5\<lparr>MaxIterations := 0\<rparr>)
              empty_manager hello 1 2 ()"
  let ?s = "fst (GetOrCreate empty_manager (in_SessionKey hello))"
  have z: "MaxIterations (loop_with hi_provider 5\<lparr>MaxIterations := 0\<rparr>) \<le> 0" by simp
  have g: "?s = \<lparr>Key = ''web:c1'', Messages = []\<rparr>"
    by (simp add: GetOrCreate_def empty_manager_def hello_def NewInboundMessage_def
        loadFromFile_def Let_def)
  have wt: "with_turns \<lparr>Key = ''web:c1'', Messages = []\<rparr> hello placeholder 1 2
      = \<lparr>Key = ''web:c1'',
         Messages = [\<lparr>Role = ''user'', Content = ''hello'', Timestamp = 1\<rparr>,
                     \<lparr>Role = ''assistant'', Content = placeholder, Timestamp = 2\<rparr>]\<rparr>"
    by (simp add: with_turns_def AddMessage_def hello_def NewInboundMessage_def)
  have wr: "writable empty_manager" by (simp add: empty_manager_def)
  have path: "getSessionFilePath empty_manager ''web:c1'' = ''web:c1.json''"
    by (simp add: empty_manager_def)
  note c3 = C3_zero_cap_placeholder [OF z, where rt = plain_runtime and mgr = empty_manager
      and msg = hello and ?t1.0 = 1 and ?t2.0 = 2 and w = "()"]
  note i = c3 [THEN conjunct2, THEN conjunct1]
  note rp = c3 [THEN conjunct2, THEN conjunct2, THEN conjunct2, THEN conjunct1]
  note dk = c3 [THEN conjunct2, THEN conjunct2, THEN conjunct2, THEN conjunct2, THEN conjunct2,
      THEN conjunct2, THEN conjunct2, THEN conjunct1]
  from wr dk have "disk (manager ?r) (getSessionFilePath empty_manager (Key ?s))
        = Some (with_turns ?s hello placeholder 1 2)"
    by (rule rev_mp)
  then have d: "disk (manager ?r) ''web:c1.json''
        = Some \<lparr>Key = ''web:c1'',
             Messages = [\<lparr>Role = ''user'', Content = ''hello'', Timestamp = 1\<rparr>,
                         \<lparr>Role = ''assistant'', Content = placeholder, Timestamp = 2\<rparr>]\<rparr>"
    by (simp only: g wt) (simp add: path)
  have rp': "reply ?r = Inr \<lparr>out_Channel = ''web'', out_ChatID = ''c1'', out_Content = placeholder\<rparr>"
    by (simp only: rp) (simp add: hello_def NewInboundMessage_def NewOutboundMessage_def)
  from i rp' d show ?thesis by (intro conjI)
qed

lemma iterations_run:
  assumes "agent_loop rt a (nat (MaxIterations a)) 0
             (BuildMessages rt
                (convertSessionMessages (GetHistory (fst (GetOrCreate mgr (in_SessionKey msg)))))
                (in_Content msg) (in_Media msg) (in_Channel msg) (in_ChatID msg)) w
           = (fin, its, m1, w1)"
  shows "iterations (ProcessMessage rt a mgr msg t1 t2 w) = its"
  by (cases fin) (simp_all only: ProcessMessage_run [OF assms] loop_end.case Processed.simps)


lemma calling_run:
  "agent_loop plain_runtime (loop_with calling_provider 1)
      (nat (MaxIterations (loop_with calling_provider 1))) 0 ms ()
    = (CapHit,
       [\<lparr>it_error = None, it_content = ''partial answer'',
         it_toolCalls = [\<lparr>tcID = ''A'', tcType = ''function'', tcName = ''f'',
                          tcArguments = ''{}''\<rparr>]\<rparr>],
       ms @ [\<lparr>mRole = ''assistant'', mContent = ''partial answer'', mToolCallID = [],
               mToolCalls = [\<lparr>tcID = ''A'', tcType = ''function'', tcName = ''f'',
                               tcArguments = ''{}''\<rparr>]\<rparr>,
             \<lparr>mRole = ''tool'', mContent = ''Error: tool not found: f'', mToolCallID = ''A'',
               mToolCalls = []\<rparr>],
       ())"
  by (simp add: loop_with_def NewAgentLoop_def calling_provider_def run_handler_def
      newStreamHandler_def Let_def plain_runtime_def Registry_Execute_def Registry_Get_def
      NewRegistry_def AddAssistantMessage_def AddToolResult_def error_text_def)



lemma hello_fresh:
  "GetOrCreate empty_manager (in_SessionKey hello)
     = (\<lparr>Key = ''web:c1'', Messages = []\<rparr>,
        empty_manager\<lparr>sessions := [''web:c1'' \<mapsto> \<lparr>Key = ''web:c1'', Messages = []\<rparr>]\<rparr>)"
  by (simp add: GetOrCreate_def empty_manager_def hello_def NewInboundMessage_def
      loadFromFile_def Let_def)

text \<open>
  C4, the claim as stated fails: with the cap 1 and a stream that carries the
  text \<open>partial answer\<close> together with a tool call, the cap is hit after the
  one iteration and the reply is the placeholder, not the collected text.
\<close>

theorem C4_cap_hit_counterexample:
  "iterations (ProcessMessage plain_runtime (loop_with calling_provider 1) empty_manager hello 1 2 ())
     = [\<lparr>it_error = None, it_content = ''partial answer'',
         it_toolCalls = [\<lparr>tcID = ''A'', tcType = ''function'', tcName = ''f'',
                          tcArguments = ''{}''\<rparr>]\<rparr>]
   \<and> reply (ProcessMessage plain_runtime (loop_with calling_provider 1) empty_manager hello 1 2 ())
     = Inr \<lparr>out_Channel = ''web'', out_ChatID = ''c1'', out_Content = placeholder\<rparr>
   \<and> placeholder \<noteq> ''partial answer''"
proof -
  have "ProcessMessage plain_runtime (loop_with calling_provider 1) empty_manager hello 1 2 ()
      = \<lparr>reply = Inr (NewOutboundMessage (in_Channel hello) (in_ChatID hello) placeholder),
         manager = persisted empty_manager hello placeholder 1 2,
         iterations = [\<lparr>it_error = None, it_content = ''partial answer'',
                         it_toolCalls = [\<lparr>tcID = ''A'', tcType = ''function'', tcName = ''f'',
                                          tcArguments = ''{}''\<rparr>]\<rparr>],
         world = ()\<rparr>"
    by (simp only: ProcessMessage_run [OF calling_run] loop_end.case)
  then show ?thesis
    by (simp add: hello_def NewInboundMessage_def NewOutboundMessage_def placeholder_def)
qed

text \<open>
  C4, amended.  When every iteration of the loop ends without error and with
  tool calls, the loop runs to the cap and the text collected on the way is
  dropped: the reply is the placeholder.  The session of the message becomes
  its former turns followed by the user turn and the placeholder turn, cut to
  the newest 50; it is stored in the manager under the key of the message and
  under its own key, and it is the one file written when the disk can be
  written (no file is written otherwise).
\<close>

theorem C4_cap_hit_placeholder:
  assumes "\<forall>it \<in> set (iterations (ProcessMessage rt a mgr msg t1 t2 w)).
             it_error it = None \<and> it_toolCalls it \<noteq> []"
  shows "length (iterations (ProcessMessage rt a mgr msg t1 t2 w)) = nat (MaxIterations a)
    \<and> reply (ProcessMessage rt a mgr msg t1 t2 w)
        = Inr (NewOutboundMessage (in_Channel msg) (in_ChatID msg) placeholder)
    \<and> manager (ProcessMessage rt a mgr msg t1 t2 w) = persisted mgr msg placeholder t1 t2
    \<and> with_turns (fst (GetOrCreate mgr (in_SessionKey msg))) msg placeholder t1 t2
        = \<lparr>Key = Key (fst (GetOrCreate mgr (in_SessionKey msg))),
           Messages =
             drop (length (Messages (fst (GetOrCreate mgr (in_SessionKey msg)))) + 2 - 50)
               (Messages (fst (GetOrCreate mgr (in_SessionKey msg)))
                @ [\<lparr>Role = ''user'', Content = in_Content msg, Timestamp = t1\<rparr>,
                   \<lparr>Role = ''assistant'', Content = placeholder, Timestamp = t2\<rparr>])\<rparr>
    \<and> sessions (manager (ProcessMessage rt a mgr msg t1 t2 w))
        = (sessions (snd (GetOrCreate mgr (in_SessionKey msg))))
            (in_SessionKey msg
               \<mapsto> with_turns (fst (GetOrCreate mgr (in_SessionKey msg))) msg placeholder t1 t2,
             Key (fst (GetOrCreate mgr (in_SessionKey msg)))
               \<mapsto> with_turns (fst (GetOrCreate mgr (in_SessionKey msg))) msg placeholder t1 t2)
    \<and> (writable mgr \<longrightarrow>
         disk (manager (ProcessMessage rt a mgr msg t1 t2 w))
           = (disk mgr)(getSessionFilePath mgr (Key (fst (GetOrCreate mgr (in_SessionKey msg))))
                \<mapsto> with_turns (fst (GetOrCreate mgr (in_SessionKey msg))) msg placeholder t1 t2))
    \<and> (\<not> writable mgr \<longrightarrow>
         disk (manager (ProcessMessage rt a mgr msg t1 t2 w)) = disk mgr)"
proof -
  let ?ms = "BuildMessages rt
      (convertSessionMessages (GetHistory (fst (GetOrCreate mgr (in_SessionKey msg)))))
      (in_Content msg) (in_Media msg) (in_Channel msg) (in_ChatID msg)"
  obtain fin its m1 w1 where
    l: "agent_loop rt a (nat (MaxIterations a)) 0 ?ms w = (fin, its, m1, w1)"
    by (cases "agent_loop rt a (nat (MaxIterations a)) 0 ?ms w") auto
  have i: "iterations (ProcessMessage rt a mgr msg t1 t2 w) = its"
    by (rule iterations_run [OF l])
  from assms i have "\<forall>it \<in> set its. it_error it = None \<and> it_toolCalls it \<noteq> []" by simp
  from agent_loop_all_calls [OF l this] have fin: "fin = CapHit" and len: "length its = nat (MaxIterations a)"
    by simp_all
  have r: "ProcessMessage rt a mgr msg t1 t2 w
      = \<lparr>reply = Inr (NewOutboundMessage (in_Channel msg) (in_ChatID msg) placeholder),
         manager = persisted mgr msg placeholder t1 t2, iterations = its, world = w1\<rparr>"
    by (simp only: ProcessMessage_run [OF l] fin loop_end.case)
  note ob = persisted_observed [of mgr msg placeholder t1 t2]
  have c1: "length (iterations (ProcessMessage rt a mgr msg t1 t2 w)) = nat (MaxIterations a)"
    using len by (simp only: r Processed.simps)
  have c2: "reply (ProcessMessage rt a mgr msg t1 t2 w)
        = Inr (NewOutboundMessage (in_Channel msg) (in_ChatID msg) placeholder)"
    by (simp only: r Processed.simps)
  have c3: "manager (ProcessMessage rt a mgr msg t1 t2 w) = persisted mgr msg placeholder t1 t2"
    by (simp only: r Processed.simps)
  from c1 c2 c3 with_turns_explicit [of "fst (GetOrCreate mgr (in_SessionKey msg))" msg placeholder t1 t2]
    ob [THEN conjunct1, folded c3] ob [THEN conjunct2, THEN conjunct1, folded c3]
    ob [THEN conjunct2, THEN conjunct2, folded c3]
  show ?thesis by (intro conjI)
qed

theorem C4_cap_hit_placeholder_witness:
  "length (iterations
      (ProcessMessage plain_runtime (loop_with calling_provider 1) empty_manager hello 1 2 ())) = 1
   \<and> reply (ProcessMessage plain_runtime (loop_with calling_provider 1) empty_manager hello 1 2 ())
     = Inr \<lparr>out_Channel = ''web'', out_ChatID = ''c1'', out_Content = placeholder\<rparr>
   \<and> disk (manager
        (ProcessMessage plain_runtime (loop_with calling_provider 1) empty_manager hello 1 2 ()))
     = [''web:c1.json'' \<mapsto>
          \<lparr>Key = ''web:c1'',
           Messages = [\<lparr>Role = ''user'', Content = ''hello'', Timestamp = 1\<rparr>,
                       \<lparr>Role = ''assistant'', Content = placeholder, Timestamp = 2\<rparr>]\<rparr>]"
proof -
  let ?r = "ProcessMessage plain_runtime (loop_with calling_provider 1) empty_manager hello 1 2 ()"
  have i: "iterations ?r = [\<lparr>it_error = None, it_content = ''partial answer'',
         it_toolCalls = [\<lparr>tcID = ''A'', tcType = ''function'', tcName = ''f'',
                          tcArguments = ''{}''\<rparr>]\<rparr>]"
    by (rule iterations_run [OF calling_run])
  have h: "\<forall>it \<in> set (iterations ?r). it_error it = None \<and> it_toolCalls it \<noteq> []"
    by (simp only: i) simp
  have cap: "nat (MaxIterations (loop_with calling_provider 1)) = 1"
    by (simp add: loop_with_def NewAgentLoop_def)
  note c4 = C4_cap_hit_placeholder [OF h]
  from c4 [THEN conjunct1] cap have len: "length (iterations ?r) = 1" by simp
  from c4 [THEN conjunct2, THEN conjunct1]
  have rp: "reply ?r = Inr \<lparr>out_Channel = ''web'', out_ChatID = ''c1'', out_Content = placeholder\<rparr>"
    by (simp add: hello_def NewInboundMessage_def NewOutboundMessage_def)
  have k: "in_SessionKey hello = ''web:c1''"
    by (simp add: hello_def NewInboundMessage_def)
  have hf: "fst (GetOrCreate empty_manager ''web:c1'') = \<lparr>Key = ''web:c1'', Messages = []\<rparr>"
    using hello_fresh by (simp add: k)
  have wr: "writable empty_manager" by (simp add: empty_manager_def)
  note wt = c4 [THEN conjunct2, THEN conjunct2, THEN conjunct2, THEN conjunct1]
  note dk = c4 [THEN conjunct2, THEN conjunct2, THEN conjunct2, THEN conjunct2, THEN conjunct2,
      THEN conjunct1, THEN mp, OF wr]
  have e: "\<lparr>Key = Key (fst (GetOrCreate empty_manager (in_SessionKey hello))),
           Messages =
             drop (length (Messages (fst (GetOrCreate empty_manager (in_SessionKey hello)))) + 2 - 50)
               (Messages (fst (GetOrCreate empty_manager (in_SessionKey hello)))
                @ [\<lparr>Role = ''user'', Content = in_Content hello, Timestamp = 1\<rparr>,
                   \<lparr>Role = ''assistant'', Content = placeholder, Timestamp = 2\<rparr>])\<rparr>
      = \<lparr>Key = ''web:c1'',
         Messages = [\<lparr>Role = ''user'', Content = ''hello'', Timestamp = 1\<rparr>,
                     \<lparr>Role = ''assistant'', Content = placeholder, Timestamp = 2\<rparr>]\<rparr>"
    by (simp only: k hf) (simp add: hello_def NewInboundMessage_def)
  note stored = dk [unfolded trans [OF wt e]]
  have "disk (manager ?r)
     = [''web:c1.json'' \<mapsto>
          \<lparr>Key = ''web:c1'',
           Messages = [\<lparr>Role = ''user'', Content = ''hello'', Timestamp = 1\<rparr>,
                       \<lparr>Role = ''assistant'', Content = placeholder, Timestamp = 2\<rparr>]\<rparr>]"
    by (simp only: stored k hf) (simp add: empty_manager_def)
  with len rp show ?thesis by (intro conjI)
qed



end
